theory Spec2Isabelle
  imports Complex_Main
begin

section \<open>Floating-point values\<close>

text \<open>
  The arrays of the program hold IEEE-754 doubles. A value is modelled as a finite real,
  one of the two infinities, or NaN. The special values follow IEEE-754, which numpy
  returns (with a warning, never an exception): \<open>x / 0\<close> is an infinity with the sign
  of \<open>x\<close>, \<open>0 / 0\<close>, \<open>0 * inf\<close> and \<open>inf - inf\<close> are NaN, \<open>log 0\<close> is \<open>-inf\<close>, the
  logarithm and the square root of a negative number are NaN, and the exponential
  overflows to \<open>inf\<close> and underflows to 0. Sums, products and quotients of finite
  values are exact: no rounding, one unsigned zero, and no overflow. A double sum or
  product can overflow, so a theorem that states that a result is finite bounds the
  magnitudes of its operands by a hypothesis, well inside the range of the doubles,
  where the exact result and the double result differ by rounding only.
\<close>

datatype npfloat = Fin real | PInf | NInf | NaN

fun isfinite :: "npfloat \<Rightarrow> bool" where
  "isfinite (Fin x) = True"
| "isfinite PInf = False"
| "isfinite NInf = False"
| "isfinite NaN = False"

definition signed_inf :: "real \<Rightarrow> npfloat" where
  "signed_inf a = (if 0 < a then PInf else if a < 0 then NInf else NaN)"

instantiation npfloat :: "{comm_monoid_add, one, minus, uminus, times, inverse}"
begin

definition zero_npfloat :: npfloat where
  "zero_npfloat = Fin 0"

definition one_npfloat :: npfloat where
  "one_npfloat = Fin 1"

fun plus_npfloat :: "npfloat \<Rightarrow> npfloat \<Rightarrow> npfloat" where
  "plus_npfloat (Fin a) (Fin b) = Fin (a + b)"
| "plus_npfloat (Fin a) PInf = PInf"
| "plus_npfloat (Fin a) NInf = NInf"
| "plus_npfloat PInf (Fin b) = PInf"
| "plus_npfloat PInf PInf = PInf"
| "plus_npfloat PInf NInf = NaN"
| "plus_npfloat NInf (Fin b) = NInf"
| "plus_npfloat NInf PInf = NaN"
| "plus_npfloat NInf NInf = NInf"
| "plus_npfloat NaN b = NaN"
| "plus_npfloat a NaN = NaN"

fun uminus_npfloat :: "npfloat \<Rightarrow> npfloat" where
  "uminus_npfloat (Fin a) = Fin (- a)"
| "uminus_npfloat PInf = NInf"
| "uminus_npfloat NInf = PInf"
| "uminus_npfloat NaN = NaN"

definition minus_npfloat :: "npfloat \<Rightarrow> npfloat \<Rightarrow> npfloat" where
  "minus_npfloat a b = a + (- b)"

fun times_npfloat :: "npfloat \<Rightarrow> npfloat \<Rightarrow> npfloat" where
  "times_npfloat (Fin a) (Fin b) = Fin (a * b)"
| "times_npfloat (Fin a) PInf = signed_inf a"
| "times_npfloat (Fin a) NInf = signed_inf (- a)"
| "times_npfloat PInf (Fin b) = signed_inf b"
| "times_npfloat NInf (Fin b) = signed_inf (- b)"
| "times_npfloat PInf PInf = PInf"
| "times_npfloat PInf NInf = NInf"
| "times_npfloat NInf PInf = NInf"
| "times_npfloat NInf NInf = PInf"
| "times_npfloat NaN b = NaN"
| "times_npfloat a NaN = NaN"

fun divide_npfloat :: "npfloat \<Rightarrow> npfloat \<Rightarrow> npfloat" where
  "divide_npfloat (Fin a) (Fin b) = (if b = 0 then signed_inf a else Fin (a / b))"
| "divide_npfloat (Fin a) PInf = Fin 0"
| "divide_npfloat (Fin a) NInf = Fin 0"
| "divide_npfloat PInf (Fin b) = (if b < 0 then NInf else PInf)"
| "divide_npfloat NInf (Fin b) = (if b < 0 then PInf else NInf)"
| "divide_npfloat PInf PInf = NaN"
| "divide_npfloat PInf NInf = NaN"
| "divide_npfloat NInf PInf = NaN"
| "divide_npfloat NInf NInf = NaN"
| "divide_npfloat NaN b = NaN"
| "divide_npfloat a NaN = NaN"

definition inverse_npfloat :: "npfloat \<Rightarrow> npfloat" where
  "inverse_npfloat a = divide (Fin 1) a"

instance
proof
  fix x y z :: npfloat
  show "0 + x = x"
    unfolding zero_npfloat_def by (cases x; simp)
  show "x + y = y + x"
    by (cases x; cases y; simp)
  show "x + y + z = x + (y + z)"
    by (cases x; cases y; cases z; simp)
qed

end

text \<open>
  \<open>np.exp\<close>, \<open>np.log\<close> and \<open>np.sqrt\<close> on one value. The exponential of a double
  overflows to \<open>inf\<close> above \<open>ln\<close> of the largest double and underflows to \<open>0.0\<close>
  below \<open>ln\<close> of half the smallest positive double; the two thresholds are given to
  thirteen digits.
\<close>

definition exp_overflow :: real where
  "exp_overflow = 709782712893384 / 1000000000000"

definition exp_underflow :: real where
  "exp_underflow = - (7451332191019412 / 10000000000000)"

fun exp_f :: "npfloat \<Rightarrow> npfloat" where
  "exp_f (Fin x) =
     (if exp_overflow < x then PInf else if x < exp_underflow then Fin 0 else Fin (exp x))"
| "exp_f PInf = PInf"
| "exp_f NInf = Fin 0"
| "exp_f NaN = NaN"

fun log_f :: "npfloat \<Rightarrow> npfloat" where
  "log_f (Fin x) = (if 0 < x then Fin (ln x) else if x = 0 then NInf else NaN)"
| "log_f PInf = PInf"
| "log_f NInf = NaN"
| "log_f NaN = NaN"

fun sqrt_f :: "npfloat \<Rightarrow> npfloat" where
  "sqrt_f (Fin x) = (if 0 \<le> x then Fin (sqrt x) else NaN)"
| "sqrt_f PInf = PInf"
| "sqrt_f NInf = NaN"
| "sqrt_f NaN = NaN"

text \<open>The comparison \<open>a <= b\<close> of IEEE-754: false as soon as one side is NaN.\<close>

fun le_f :: "npfloat \<Rightarrow> npfloat \<Rightarrow> bool" where
  "le_f (Fin a) (Fin b) = (a \<le> b)"
| "le_f (Fin a) PInf = True"
| "le_f (Fin a) NInf = False"
| "le_f PInf (Fin b) = False"
| "le_f PInf PInf = True"
| "le_f PInf NInf = False"
| "le_f NInf (Fin b) = True"
| "le_f NInf PInf = True"
| "le_f NInf NInf = True"
| "le_f NaN b = False"
| "le_f a NaN = False"

section \<open>Two-dimensional numpy arrays\<close>

text \<open>
  Every array of the program is two-dimensional: a batch is \<open>(batch_size, dim)\<close>, a
  weight matrix \<open>(dim_in, dim_out)\<close>, a bias \<open>(1, dim)\<close>. An array carries its shape
  and its rows; the shape is explicit because an array with no row still has a number
  of columns. \<open>wf\<close> says that the rows agree with the shape. The operations read
  cells inside the shape only (\<open>item\<close>), and every array they build (\<open>tabulate\<close>) is
  well formed.
\<close>

datatype ndarray = NDArray (shape0: nat) (shape1: nat) (rows: "npfloat list list")

definition wf :: "ndarray \<Rightarrow> bool" where
  "wf A \<longleftrightarrow> length (rows A) = shape0 A \<and> (\<forall>r \<in> set (rows A). length r = shape1 A)"

definition item :: "ndarray \<Rightarrow> nat \<Rightarrow> nat \<Rightarrow> npfloat" where
  "item A i j = rows A ! i ! j"

definition tabulate :: "nat \<Rightarrow> nat \<Rightarrow> (nat \<Rightarrow> nat \<Rightarrow> npfloat) \<Rightarrow> ndarray" where
  "tabulate m n f = NDArray m n (map (\<lambda>i. map (f i) [0..<n]) [0..<m])"

datatype np_error = ValueError | ZeroDivisionError

text \<open>
  Broadcasting of numpy, one dimension at a time: two lengths are compatible when they
  are equal or one of them is 1, and the operand of length 1 is read at index 0.
\<close>

definition bdim :: "nat \<Rightarrow> nat \<Rightarrow> nat option" where
  "bdim m n = (if m = n then Some m else if m = 1 then Some n
               else if n = 1 then Some m else None)"

definition bidx :: "nat \<Rightarrow> nat \<Rightarrow> nat" where
  "bidx m i = (if m = 1 then 0 else i)"

definition bitem :: "ndarray \<Rightarrow> nat \<Rightarrow> nat \<Rightarrow> npfloat" where
  "bitem A i j = item A (bidx (shape0 A) i) (bidx (shape1 A) j)"

text \<open>A binary ufunc on two arrays (\<open>A + B\<close>, \<open>A - B\<close>, \<open>np.multiply\<close>, \<open>A / B\<close>).\<close>

definition ufunc2 ::
  "(npfloat \<Rightarrow> npfloat \<Rightarrow> npfloat) \<Rightarrow> ndarray \<Rightarrow> ndarray \<Rightarrow> np_error + ndarray" where
  "ufunc2 f A B =
     (case bdim (shape0 A) (shape0 B) of
        None \<Rightarrow> Inl ValueError
      | Some m \<Rightarrow>
          (case bdim (shape1 A) (shape1 B) of
             None \<Rightarrow> Inl ValueError
           | Some n \<Rightarrow> Inr (tabulate m n (\<lambda>i j. f (bitem A i j) (bitem B i j)))))"

definition np_add :: "ndarray \<Rightarrow> ndarray \<Rightarrow> np_error + ndarray" where
  "np_add = ufunc2 (+)"

definition np_subtract :: "ndarray \<Rightarrow> ndarray \<Rightarrow> np_error + ndarray" where
  "np_subtract = ufunc2 (-)"

definition np_multiply :: "ndarray \<Rightarrow> ndarray \<Rightarrow> np_error + ndarray" where
  "np_multiply = ufunc2 (*)"

definition np_divide :: "ndarray \<Rightarrow> ndarray \<Rightarrow> np_error + ndarray" where
  "np_divide = ufunc2 (/)"

text \<open>
  A unary ufunc, and a binary one with a Python scalar on one side (\<open>1 - A\<close>,
  \<open>lr * A\<close>, \<open>A / n\<close>): the result has the shape of the array.
\<close>

definition ufunc1 :: "(npfloat \<Rightarrow> npfloat) \<Rightarrow> ndarray \<Rightarrow> ndarray" where
  "ufunc1 f A = tabulate (shape0 A) (shape1 A) (\<lambda>i j. f (item A i j))"

definition np_exp :: "ndarray \<Rightarrow> ndarray" where
  "np_exp = ufunc1 exp_f"

definition np_log :: "ndarray \<Rightarrow> ndarray" where
  "np_log = ufunc1 log_f"

definition np_sqrt :: "ndarray \<Rightarrow> ndarray" where
  "np_sqrt = ufunc1 sqrt_f"

definition np_square :: "ndarray \<Rightarrow> ndarray" where
  "np_square = ufunc1 (\<lambda>x. x * x)"

definition np_negative :: "ndarray \<Rightarrow> ndarray" where
  "np_negative = ufunc1 uminus"

text \<open>\<open>A.T\<close> and \<open>np.transpose(A)\<close>.\<close>

definition np_transpose :: "ndarray \<Rightarrow> ndarray" where
  "np_transpose A = tabulate (shape1 A) (shape0 A) (\<lambda>i j. item A j i)"

text \<open>
  \<open>np.dot(A, B)\<close> on two-dimensional arrays is the matrix product; it raises
  ValueError unless the inner dimensions agree (it never broadcasts).
\<close>

definition np_dot :: "ndarray \<Rightarrow> ndarray \<Rightarrow> np_error + ndarray" where
  "np_dot A B =
     (if shape1 A = shape0 B
      then Inr (tabulate (shape0 A) (shape1 B)
                  (\<lambda>i j. sum_list (map (\<lambda>k. item A i k * item B k j) [0..<shape1 A])))
      else Inl ValueError)"

text \<open>
  \<open>np.sum(A, axis=1, keepdims=True)\<close> is a column of row sums,
  \<open>np.sum(A, axis=0, keepdims=True)\<close> a row of column sums; \<open>np.sum(A, axis=1)\<close>
  is the one-dimensional array of the row sums, here a list; \<open>np.mean\<close> of a
  one-dimensional array divides its sum by its length.
\<close>

definition np_sum_axis1_keepdims :: "ndarray \<Rightarrow> ndarray" where
  "np_sum_axis1_keepdims A =
     tabulate (shape0 A) 1 (\<lambda>i j. sum_list (map (\<lambda>k. item A i k) [0..<shape1 A]))"

definition np_sum_axis0_keepdims :: "ndarray \<Rightarrow> ndarray" where
  "np_sum_axis0_keepdims A =
     tabulate 1 (shape1 A) (\<lambda>i j. sum_list (map (\<lambda>k. item A k j) [0..<shape0 A]))"

definition np_sum_axis1 :: "ndarray \<Rightarrow> npfloat list" where
  "np_sum_axis1 A =
     map (\<lambda>i. sum_list (map (\<lambda>k. item A i k) [0..<shape1 A])) [0..<shape0 A]"

definition np_mean :: "npfloat list \<Rightarrow> npfloat" where
  "np_mean xs = sum_list xs / Fin (real (length xs))"

section \<open>The store\<close>

text \<open>
  The weight arrays are mutable objects that the caller and the callee share:
  \<open>w -= x\<close> overwrites the cells of the array object \<open>w\<close> names. The store maps a
  reference to the array it holds. An in-place subtraction keeps the shape of its
  target: the operand must broadcast to that shape, or numpy raises ValueError.
\<close>

type_synonym ref = nat

type_synonym store = "ref \<Rightarrow> ndarray"

definition isub :: "store \<Rightarrow> ref \<Rightarrow> ndarray \<Rightarrow> np_error + store" where
  "isub s w B =
     (if (shape0 B = shape0 (s w) \<or> shape0 B = 1) \<and> (shape1 B = shape1 (s w) \<or> shape1 B = 1)
      then Inr (s(w := tabulate (shape0 (s w)) (shape1 (s w))
                          (\<lambda>i j. item (s w) i j - bitem B i j)))
      else Inl ValueError)"

section \<open>optimizers.py\<close>

text \<open>
  \<^verbatim>\<open>
  class GradientDescent(Optimizer):
      def __init__(self, learning_rate=0.001):
          self.learning_rate = learning_rate

      def update_weights(self, weight_matrix, gradient):
          weight_matrix -= self.learning_rate * gradient
          return weight_matrix
  \<close>
  The weight matrix is a reference into the store; the gradient is only read, and
  read before the write, so it is passed as the value it has at the call. The base
  class \<open>Optimizer\<close>, whose \<open>update_weights\<close> only raises NotImplementedError, is never
  instantiated and is not modelled.
\<close>

record GradientDescent =
  learning_rate :: npfloat

definition GradientDescent_init :: "npfloat option \<Rightarrow> GradientDescent" where
  "GradientDescent_init lr =
     \<lparr>learning_rate = (case lr of None \<Rightarrow> Fin (1 / 1000) | Some v \<Rightarrow> v)\<rparr>"

definition GradientDescent_update_weights ::
  "GradientDescent \<Rightarrow> store \<Rightarrow> ref \<Rightarrow> ndarray \<Rightarrow> np_error + (store \<times> ref)" where
  "GradientDescent_update_weights self s weight_matrix gradient =
     (case isub s weight_matrix (ufunc1 (\<lambda>x. learning_rate self * x) gradient) of
        Inl e \<Rightarrow> Inl e
      | Inr s' \<Rightarrow> Inr (s', weight_matrix))"

text \<open>
  \<^verbatim>\<open>
  class RMSProp(Optimizer):
      def __init__(self, gamma=0.9, alpha=0.001, eps=0.00000001):
          self.r = 0
          self.gamma = gamma
          self.velocity = 0
          self.alpha = alpha
          self.eps = eps

      def update_weights(self, weight_matrix, gradient):
          self.r = self.gamma * np.square(gradient) + (1 - self.gamma) * self.r
          self.velocity = np.multiply((self.alpha / (np.sqrt(self.r) + self.eps)),
                                      gradient)
          weight_matrix -= self.velocity
          return weight_matrix
  \<close>
  \<open>r\<close> and \<open>velocity\<close> start as the Python scalar 0 and hold an array after the
  first update.
\<close>

datatype npval = Scalar npfloat | Array ndarray

record RMSProp =
  r :: npval
  gamma :: npfloat
  velocity :: npval
  alpha :: npfloat
  eps :: npfloat

definition RMSProp_init ::
  "npfloat option \<Rightarrow> npfloat option \<Rightarrow> npfloat option \<Rightarrow> RMSProp" where
  "RMSProp_init g a e =
     \<lparr>r = Scalar (Fin 0),
      gamma = (case g of None \<Rightarrow> Fin (9 / 10) | Some v \<Rightarrow> v),
      velocity = Scalar (Fin 0),
      alpha = (case a of None \<Rightarrow> Fin (1 / 1000) | Some v \<Rightarrow> v),
      eps = (case e of None \<Rightarrow> Fin (1 / 100000000) | Some v \<Rightarrow> v)\<rparr>"

definition RMSProp_update_weights ::
  "RMSProp \<Rightarrow> store \<Rightarrow> ref \<Rightarrow> ndarray \<Rightarrow> np_error + (RMSProp \<times> store \<times> ref)" where
  "RMSProp_update_weights self s weight_matrix gradient =
     (case (case r self of
              Scalar x \<Rightarrow>
                Inr (ufunc1 (\<lambda>v. v + (Fin 1 - gamma self) * x)
                       (ufunc1 (\<lambda>v. gamma self * v) (np_square gradient)))
            | Array R \<Rightarrow>
                np_add (ufunc1 (\<lambda>v. gamma self * v) (np_square gradient))
                       (ufunc1 (\<lambda>v. (Fin 1 - gamma self) * v) R)) of
        Inl e \<Rightarrow> Inl e
      | Inr r' \<Rightarrow>
          (case np_multiply
                  (ufunc1 (\<lambda>v. alpha self / v) (ufunc1 (\<lambda>v. v + eps self) (np_sqrt r')))
                  gradient of
             Inl e \<Rightarrow> Inl e
           | Inr v' \<Rightarrow>
               (case isub s weight_matrix v' of
                  Inl e \<Rightarrow> Inl e
                | Inr s' \<Rightarrow>
                    Inr (self\<lparr>r := Array r', velocity := Array v'\<rparr>, s', weight_matrix))))"

section \<open>simple_net.py\<close>

text \<open>
  \<^verbatim>\<open>
  def sigmoid(vector):
      return 1 / (1 + np.exp(-vector))

  def softmax(vector):
      return np.exp(vector) / np.sum(np.exp(vector), axis=1, keepdims=True)
  \<close>
\<close>

definition sigmoid :: "ndarray \<Rightarrow> ndarray" where
  "sigmoid vector =
     ufunc1 (\<lambda>v. Fin 1 / v) (ufunc1 (\<lambda>v. Fin 1 + v) (np_exp (np_negative vector)))"

definition softmax :: "ndarray \<Rightarrow> np_error + ndarray" where
  "softmax vector = np_divide (np_exp vector) (np_sum_axis1_keepdims (np_exp vector))"

text \<open>
  \<^verbatim>\<open>
  def log_loss(true_output, net_output):
      sum = - np.sum((np.multiply(true_output, np.log(net_output))) / (
          net_output.shape[1]), axis=1)
      return np.mean(sum)
  \<close>
\<close>

definition log_loss :: "ndarray \<Rightarrow> ndarray \<Rightarrow> np_error + npfloat" where
  "log_loss true_output net_output =
     (case np_multiply true_output (np_log net_output) of
        Inl e \<Rightarrow> Inl e
      | Inr M \<Rightarrow>
          Inr (np_mean (map uminus
                 (np_sum_axis1 (ufunc1 (\<lambda>v. v / Fin (real (shape1 net_output))) M)))))"

text \<open>
  \<^verbatim>\<open>
  def update_weights(weight_matrix, gradient, learning_rate):
      weight_matrix -= learning_rate * gradient
      return weight_matrix
  \<close>
\<close>

definition update_weights ::
  "store \<Rightarrow> ref \<Rightarrow> ndarray \<Rightarrow> npfloat \<Rightarrow> np_error + (store \<times> ref)" where
  "update_weights s weight_matrix gradient lr =
     (case isub s weight_matrix (ufunc1 (\<lambda>v. lr * v) gradient) of
        Inl e \<Rightarrow> Inl e
      | Inr s' \<Rightarrow> Inr (s', weight_matrix))"

text \<open>
  \<^verbatim>\<open>
  def backprop(y, y_, hidden_output_activations, hidden_weights,
               input_weights, bias_hidden, bias_input, input_x):
      dLdy_ = (y_ - y) / y.shape[1]
      dLdhiddenActiv = np.dot(np.transpose(dLdy_), hidden_output_activations)
      delta_h = np.multiply(
          np.multiply(hidden_output_activations, (1 - hidden_output_activations)),
          (np.dot(dLdy_, hidden_weights.T)))
      dLdWinput = np.dot(input_x.T, delta_h)
      hidden_weights = update_weights(hidden_weights, dLdhiddenActiv.T, LEARNING_RATE)
      bias_hidden = update_weights(bias_hidden,
                                   np.sum(dLdy_, axis=0, keepdims=True), LEARNING_RATE)
      input_weights = update_weights(input_weights, dLdWinput, LEARNING_RATE)
      bias_input = update_weights(bias_input,
                                  np.sum(delta_h, axis=0, keepdims=True), LEARNING_RATE)
      return hidden_weights, bias_hidden, input_weights, bias_input
  \<close>
  The four parameter arrays are references into the store, since they are updated in
  place. The labels, the predictions, the activations and the input are read only, and
  read before the first update, so they are passed as values. \<open>LEARNING_RATE\<close> comes
  from the module \<open>constants\<close>, which is not part of the sources: it is the last
  parameter. The names \<open>y_\<close> and \<open>dLdy_\<close> are written \<open>y'\<close> and \<open>dLdy'\<close>.
\<close>

definition backprop ::
  "store \<Rightarrow> ndarray \<Rightarrow> ndarray \<Rightarrow> ndarray \<Rightarrow> ref \<Rightarrow> ref \<Rightarrow> ref \<Rightarrow> ref \<Rightarrow> ndarray \<Rightarrow> npfloat
     \<Rightarrow> np_error + (store \<times> (ref \<times> ref \<times> ref \<times> ref))" where
  "backprop s y y' hidden_output_activations hidden_weights input_weights bias_hidden
            bias_input input_x LEARNING_RATE =
     (case np_subtract y' y of
        Inl e \<Rightarrow> Inl e
      | Inr D \<Rightarrow>
     let dLdy' = ufunc1 (\<lambda>v. v / Fin (real (shape1 y))) D in
     (case np_dot (np_transpose dLdy') hidden_output_activations of
        Inl e \<Rightarrow> Inl e
      | Inr dLdhiddenActiv \<Rightarrow>
     (case np_multiply hidden_output_activations
             (ufunc1 (\<lambda>v. Fin 1 - v) hidden_output_activations) of
        Inl e \<Rightarrow> Inl e
      | Inr sigmoid_deriv \<Rightarrow>
     (case np_dot dLdy' (np_transpose (s hidden_weights)) of
        Inl e \<Rightarrow> Inl e
      | Inr back \<Rightarrow>
     (case np_multiply sigmoid_deriv back of
        Inl e \<Rightarrow> Inl e
      | Inr delta_h \<Rightarrow>
     (case np_dot (np_transpose input_x) delta_h of
        Inl e \<Rightarrow> Inl e
      | Inr dLdWinput \<Rightarrow>
     (case update_weights s hidden_weights (np_transpose dLdhiddenActiv) LEARNING_RATE of
        Inl e \<Rightarrow> Inl e
      | Inr (s1, hidden_weights') \<Rightarrow>
     (case update_weights s1 bias_hidden (np_sum_axis0_keepdims dLdy') LEARNING_RATE of
        Inl e \<Rightarrow> Inl e
      | Inr (s2, bias_hidden') \<Rightarrow>
     (case update_weights s2 input_weights dLdWinput LEARNING_RATE of
        Inl e \<Rightarrow> Inl e
      | Inr (s3, input_weights') \<Rightarrow>
     (case update_weights s3 bias_input (np_sum_axis0_keepdims delta_h) LEARNING_RATE of
        Inl e \<Rightarrow> Inl e
      | Inr (s4, bias_input') \<Rightarrow>
          Inr (s4, (hidden_weights', bias_hidden', input_weights', bias_input'))))))))))))"

text \<open>
  \<^verbatim>\<open>
  def forward_pass(input, input_hidden_weight, bias_input, hidden_output_weight,
                   bias_hidden):
      hidden_layer = np.dot(input, input_hidden_weight) + bias_input
      hidden_activations = sigmoid(hidden_layer)
      return softmax(np.dot(hidden_activations,
                            hidden_output_weight) + bias_hidden), hidden_activations
  \<close>
  The forward pass only reads its arguments: they are values.
\<close>

definition forward_pass ::
  "ndarray \<Rightarrow> ndarray \<Rightarrow> ndarray \<Rightarrow> ndarray \<Rightarrow> ndarray \<Rightarrow> np_error + (ndarray \<times> ndarray)" where
  "forward_pass input input_hidden_weight bias_input hidden_output_weight bias_hidden =
     (case np_dot input input_hidden_weight of
        Inl e \<Rightarrow> Inl e
      | Inr Z1 \<Rightarrow>
     (case np_add Z1 bias_input of
        Inl e \<Rightarrow> Inl e
      | Inr hidden_layer \<Rightarrow>
     let hidden_activations = sigmoid hidden_layer in
     (case np_dot hidden_activations hidden_output_weight of
        Inl e \<Rightarrow> Inl e
      | Inr Z2 \<Rightarrow>
     (case np_add Z2 bias_hidden of
        Inl e \<Rightarrow> Inl e
      | Inr output_layer \<Rightarrow>
     (case softmax output_layer of
        Inl e \<Rightarrow> Inl e
      | Inr predictions \<Rightarrow> Inr (predictions, hidden_activations))))))"

text \<open>
  \<open>np.argmax(A)\<close> with no axis works on the flattened array (row after row) and
  returns the first index of the maximum, or of the first NaN; it raises ValueError on an
  empty array. The scan follows numpy's loop: the running maximum \<open>mp\<close> is replaced
  when \<open>not (x <= mp)\<close>, and a NaN maximum stops the scan.
\<close>

definition flatten :: "ndarray \<Rightarrow> npfloat list" where
  "flatten A = concat (map (\<lambda>i. map (item A i) [0..<shape1 A]) [0..<shape0 A])"

fun argmax_scan :: "npfloat list \<Rightarrow> nat \<Rightarrow> npfloat \<Rightarrow> nat \<Rightarrow> nat" where
  "argmax_scan [] i mp max_ind = max_ind"
| "argmax_scan (x # xs) i mp max_ind =
     (if mp = NaN then max_ind
      else if le_f x mp then argmax_scan xs (Suc i) mp max_ind
      else argmax_scan xs (Suc i) x i)"

definition argmax_list :: "npfloat list \<Rightarrow> np_error + nat" where
  "argmax_list xs = (case xs of [] \<Rightarrow> Inl ValueError | x # xs' \<Rightarrow> Inr (argmax_scan xs' 1 x 0))"

definition np_argmax :: "ndarray \<Rightarrow> np_error + nat" where
  "np_argmax A = argmax_list (flatten A)"

text \<open>
  The evaluation at the end of an epoch of \<open>main\<close>:
  \<^verbatim>\<open>
  eval_batcher = batcher.Batcher(eval_data, 1)
  ...
  correct_predictions = 0
  for image_eval, label_eval in eval_batcher.next_batch():
      output_layer, hidden_activations = forward_pass(input=image_eval,
          input_hidden_weight=input_hidden_weights, bias_input=bias_input_hidden,
          hidden_output_weight=hidden_output_weights, bias_hidden=bias_output_hidden)
      if np.argmax(output_layer) == np.argmax(label_eval):
          correct_predictions += 1
  print("\nAccuracy on the test set: {:.3f}".format(
      correct_predictions / NO_EXAMPLES_TEST))
  \<close>
  The batcher and \<open>NO_EXAMPLES_TEST\<close> are not part of the sources: the sequence of
  batches the batcher yields and the constant are parameters. The quotient is Python's
  division of two integers, which raises ZeroDivisionError on a zero divisor.
\<close>

fun eval_loop ::
  "(ndarray \<times> ndarray) list \<Rightarrow> ndarray \<Rightarrow> ndarray \<Rightarrow> ndarray \<Rightarrow> ndarray \<Rightarrow> nat
     \<Rightarrow> np_error + nat" where
  "eval_loop [] input_hidden_weights bias_input_hidden hidden_output_weights
             bias_output_hidden correct_predictions = Inr correct_predictions"
| "eval_loop ((image_eval, label_eval) # batches) input_hidden_weights bias_input_hidden
             hidden_output_weights bias_output_hidden correct_predictions =
     (case forward_pass image_eval input_hidden_weights bias_input_hidden
             hidden_output_weights bias_output_hidden of
        Inl e \<Rightarrow> Inl e
      | Inr (output_layer, hidden_activations) \<Rightarrow>
     (case np_argmax output_layer of
        Inl e \<Rightarrow> Inl e
      | Inr a \<Rightarrow>
     (case np_argmax label_eval of
        Inl e \<Rightarrow> Inl e
      | Inr b \<Rightarrow>
          eval_loop batches input_hidden_weights bias_input_hidden hidden_output_weights
            bias_output_hidden
            (if a = b then correct_predictions + 1 else correct_predictions))))"

definition test_accuracy ::
  "(ndarray \<times> ndarray) list \<Rightarrow> ndarray \<Rightarrow> ndarray \<Rightarrow> ndarray \<Rightarrow> ndarray \<Rightarrow> nat
     \<Rightarrow> np_error + real" where
  "test_accuracy batches input_hidden_weights bias_input_hidden hidden_output_weights
                 bias_output_hidden NO_EXAMPLES_TEST =
     (case eval_loop batches input_hidden_weights bias_input_hidden hidden_output_weights
             bias_output_hidden 0 of
        Inl e \<Rightarrow> Inl e
      | Inr correct_predictions \<Rightarrow>
          if NO_EXAMPLES_TEST = 0 then Inl ZeroDivisionError
          else Inr (real correct_predictions / real NO_EXAMPLES_TEST))"

section \<open>The specification's formulas\<close>

text \<open>
  The formulas of the specification, cell by cell, on arrays of consistent dimensions:
  no broadcasting and no failure. \<open>sum_upto n f\<close> is \<open>f 0 + ... + f (n - 1)\<close>.
\<close>

definition sum_upto :: "nat \<Rightarrow> (nat \<Rightarrow> npfloat) \<Rightarrow> npfloat" where
  "sum_upto n f = sum_list (map f [0..<n])"

text \<open>Forward engine: affine layer with the bias row added to every batch row.\<close>

definition spec_affine :: "ndarray \<Rightarrow> ndarray \<Rightarrow> ndarray \<Rightarrow> ndarray" where
  "spec_affine X W b =
     tabulate (shape0 X) (shape1 W)
       (\<lambda>n h. sum_upto (shape1 X) (\<lambda>d. item X n d * item W d h) + item b 0 h)"

definition spec_sigmoid :: "npfloat \<Rightarrow> npfloat" where
  "spec_sigmoid x = Fin 1 / (Fin 1 + exp_f (- x))"

definition spec_hidden :: "ndarray \<Rightarrow> ndarray \<Rightarrow> ndarray \<Rightarrow> ndarray" where
  "spec_hidden X W1 b1 =
     tabulate (shape0 X) (shape1 W1) (\<lambda>n h. spec_sigmoid (item (spec_affine X W1 b1) n h))"

definition spec_softmax :: "ndarray \<Rightarrow> ndarray" where
  "spec_softmax Z =
     tabulate (shape0 Z) (shape1 Z)
       (\<lambda>n i. exp_f (item Z n i) / sum_upto (shape1 Z) (\<lambda>j. exp_f (item Z n j)))"

definition spec_predictions :: "ndarray \<Rightarrow> ndarray \<Rightarrow> ndarray \<Rightarrow> ndarray \<Rightarrow> ndarray \<Rightarrow> ndarray" where
  "spec_predictions X W1 b1 W2 b2 = spec_softmax (spec_affine (spec_hidden X W1 b1) W2 b2)"

text \<open>Loss function.\<close>

definition spec_row_loss :: "ndarray \<Rightarrow> ndarray \<Rightarrow> nat \<Rightarrow> npfloat" where
  "spec_row_loss T P n =
     - sum_upto (shape1 P) (\<lambda>i. item T n i * log_f (item P n i) / Fin (real (shape1 P)))"

definition spec_loss :: "ndarray \<Rightarrow> ndarray \<Rightarrow> npfloat" where
  "spec_loss T P = sum_upto (shape0 P) (spec_row_loss T P) / Fin (real (shape0 P))"

text \<open>Backpropagation engine.\<close>

definition spec_d_output :: "ndarray \<Rightarrow> ndarray \<Rightarrow> ndarray" where
  "spec_d_output T P =
     tabulate (shape0 P) (shape1 P)
       (\<lambda>n c. (item P n c - item T n c) / Fin (real (shape1 P)))"

definition spec_grad_W2 :: "ndarray \<Rightarrow> ndarray \<Rightarrow> ndarray" where
  "spec_grad_W2 d A =
     tabulate (shape1 A) (shape1 d)
       (\<lambda>h c. sum_upto (shape0 d) (\<lambda>n. item d n c * item A n h))"

definition spec_delta_hidden :: "ndarray \<Rightarrow> ndarray \<Rightarrow> ndarray \<Rightarrow> ndarray" where
  "spec_delta_hidden A d W2 =
     tabulate (shape0 A) (shape1 A)
       (\<lambda>n h. item A n h * (Fin 1 - item A n h)
               * sum_upto (shape1 d) (\<lambda>c. item d n c * item W2 h c))"

definition spec_grad_W1 :: "ndarray \<Rightarrow> ndarray \<Rightarrow> ndarray" where
  "spec_grad_W1 X delta =
     tabulate (shape1 X) (shape1 delta)
       (\<lambda>i h. sum_upto (shape0 X) (\<lambda>n. item X n i * item delta n h))"

definition spec_column_sums :: "ndarray \<Rightarrow> ndarray" where
  "spec_column_sums A =
     tabulate 1 (shape1 A) (\<lambda>i j. sum_upto (shape0 A) (\<lambda>n. item A n j))"

text \<open>Optimizers.\<close>

definition spec_gd_step :: "npfloat \<Rightarrow> ndarray \<Rightarrow> ndarray \<Rightarrow> ndarray" where
  "spec_gd_step lr W G =
     tabulate (shape0 W) (shape1 W) (\<lambda>i j. item W i j - lr * item G i j)"

fun val_item :: "npval \<Rightarrow> nat \<Rightarrow> nat \<Rightarrow> npfloat" where
  "val_item (Scalar x) i j = x"
| "val_item (Array R) i j = item R i j"

fun val_has_shape :: "npval \<Rightarrow> nat \<Rightarrow> nat \<Rightarrow> bool" where
  "val_has_shape (Scalar x) m n = True"
| "val_has_shape (Array R) m n = (shape0 R = m \<and> shape1 R = n)"

definition spec_running_mean :: "npfloat \<Rightarrow> npval \<Rightarrow> ndarray \<Rightarrow> ndarray" where
  "spec_running_mean g r_old G =
     tabulate (shape0 G) (shape1 G)
       (\<lambda>i j. g * (item G i j * item G i j) + (Fin 1 - g) * val_item r_old i j)"

definition spec_velocity :: "npfloat \<Rightarrow> npfloat \<Rightarrow> ndarray \<Rightarrow> ndarray \<Rightarrow> ndarray" where
  "spec_velocity a e R G =
     tabulate (shape0 G) (shape1 G)
       (\<lambda>i j. a / (sqrt_f (item R i j) + e) * item G i j)"

definition spec_subtract :: "ndarray \<Rightarrow> ndarray \<Rightarrow> ndarray" where
  "spec_subtract W V =
     tabulate (shape0 W) (shape1 W) (\<lambda>i j. item W i j - item V i j)"

text \<open>The running statistic an update of the adaptive optimizer leaves behind.\<close>

definition updated_r :: "np_error + (RMSProp \<times> store \<times> ref) \<Rightarrow> npval option" where
  "updated_r res = (case res of Inl e \<Rightarrow> None | Inr (self', s', w') \<Rightarrow> Some (r self'))"

text \<open>
  The shape rules of numpy the program relies on. Two lengths are compatible for an
  element-wise operation when they are equal or one of them is 1 (\<open>bcompat\<close>), and the
  result has the other length (\<open>bshape\<close>); the operand of an in-place update must fit
  the target: equal length, or length 1 (\<open>fits\<close>); a matrix product needs equal inner
  dimensions. \<open>forward_shapes_ok\<close> and \<open>backprop_shapes_ok\<close> collect these
  conditions for the operations of \<open>forward_pass\<close> and of \<open>backprop\<close>, in the order of
  the code.
\<close>

definition bcompat :: "nat \<Rightarrow> nat \<Rightarrow> bool" where
  "bcompat m n \<longleftrightarrow> m = n \<or> m = 1 \<or> n = 1"

definition bshape :: "nat \<Rightarrow> nat \<Rightarrow> nat" where
  "bshape m n = (if m = 1 then n else m)"

definition fits :: "nat \<Rightarrow> nat \<Rightarrow> bool" where
  "fits m n \<longleftrightarrow> m = n \<or> m = 1"

definition forward_shapes_ok :: "ndarray \<Rightarrow> ndarray \<Rightarrow> ndarray \<Rightarrow> ndarray \<Rightarrow> ndarray \<Rightarrow> bool" where
  "forward_shapes_ok X W1 b1 W2 b2 \<longleftrightarrow>
     shape1 X = shape0 W1
     \<and> bcompat (shape0 X) (shape0 b1) \<and> bcompat (shape1 W1) (shape1 b1)
     \<and> bshape (shape1 W1) (shape1 b1) = shape0 W2
     \<and> bcompat (bshape (shape0 X) (shape0 b1)) (shape0 b2) \<and> bcompat (shape1 W2) (shape1 b2)"

definition backprop_shapes_ok ::
  "store \<Rightarrow> ndarray \<Rightarrow> ndarray \<Rightarrow> ndarray \<Rightarrow> ref \<Rightarrow> ref \<Rightarrow> ref \<Rightarrow> ref \<Rightarrow> ndarray \<Rightarrow> bool" where
  "backprop_shapes_ok s y y' A rW2 rW1 rb2 rb1 x \<longleftrightarrow>
     bcompat (shape0 y') (shape0 y) \<and> bcompat (shape1 y') (shape1 y)
     \<and> shape0 A = bshape (shape0 y') (shape0 y)
     \<and> shape1 (s rW2) = bshape (shape1 y') (shape1 y)
     \<and> fits (shape1 A) (shape0 (s rW2))
     \<and> shape0 x = bshape (shape0 y') (shape0 y)
     \<and> fits (bshape (shape1 y') (shape1 y)) (shape1 (s rb2))
     \<and> fits (shape1 x) (shape0 (s rW1))
     \<and> fits (shape0 (s rW2)) (shape1 (s rW1))
     \<and> fits (shape0 (s rW2)) (shape1 (s rb1))"

text \<open>
  A property of every cell of an array, and the values that are finite and strictly
  positive.
\<close>

definition all_cells :: "(npfloat \<Rightarrow> bool) \<Rightarrow> ndarray \<Rightarrow> bool" where
  "all_cells Q A \<longleftrightarrow> (\<forall>i < shape0 A. \<forall>j < shape1 A. Q (item A i j))"

fun positive_finite :: "npfloat \<Rightarrow> bool" where
  "positive_finite (Fin x) = (0 < x)"
| "positive_finite PInf = False"
| "positive_finite NInf = False"
| "positive_finite NaN = False"

text \<open>The real number a finite value stands for.\<close>

fun val :: "npfloat \<Rightarrow> real" where
  "val (Fin x) = x"
| "val PInf = 0"
| "val NInf = 0"
| "val NaN = 0"

text \<open>
  Label batches whose rows are one-hot: in every row one entry is 1 and the others
  are 0.
\<close>

definition one_hot_rows :: "ndarray \<Rightarrow> bool" where
  "one_hot_rows T \<longleftrightarrow>
     (\<forall>i < shape0 T. \<exists>k < shape1 T. \<forall>j < shape1 T.
        item T i j = (if j = k then Fin 1 else Fin 0))"

text \<open>
  Magnitudes for which the forward engine neither overflows nor leaves the range of the
  exponential. In the first layer, for every batch row and hidden unit, the absolute
  values of the products and of the bias add up to at most \<open>10 ^ 300\<close>, so that no
  product or partial sum of doubles overflows. In the second layer, whose inputs are
  sigmoid values between 0 and 1, for every class the absolute values of the weights
  and of the bias, plus the logarithm of the number of classes, add up to at most 700:
  every logit lies between -700 and 700, where the exponential is a positive double,
  and the sum of the exponentials of a row is at most \<open>e ^ 700\<close>.
\<close>

definition first_layer_bounded :: "ndarray \<Rightarrow> ndarray \<Rightarrow> ndarray \<Rightarrow> bool" where
  "first_layer_bounded X W1 b1 \<longleftrightarrow>
     (\<forall>n < shape0 X. \<forall>h < shape1 W1.
        (\<Sum>d < shape1 X. \<bar>val (item X n d) * val (item W1 d h)\<bar>) + \<bar>val (item b1 0 h)\<bar>
          \<le> 10 ^ 300)"

definition logits_bounded :: "ndarray \<Rightarrow> ndarray \<Rightarrow> bool" where
  "logits_bounded W2 b2 \<longleftrightarrow>
     (\<forall>c < shape1 W2.
        (\<Sum>h < shape0 W2. \<bar>val (item W2 h c)\<bar>) + \<bar>val (item b2 0 c)\<bar>
          + ln (real (shape1 W2)) \<le> 700)"

text \<open>
  Accuracy, in the words of the specification: the argmax of one row of an array, a
  batch all of whose rows agree (or none of whose rows agrees) with the labels, and a
  batch of the evaluation, which has a single row because the evaluation batcher is
  built with batch size 1, on which the forward pass succeeds.
\<close>

definition argmax_row :: "ndarray \<Rightarrow> nat \<Rightarrow> np_error + nat" where
  "argmax_row A i = argmax_list (map (item A i) [0..<shape1 A])"

definition rows_agree :: "ndarray \<Rightarrow> ndarray \<Rightarrow> bool" where
  "rows_agree P L \<longleftrightarrow>
     (\<forall>i < shape0 P. \<exists>k. argmax_row P i = Inr k \<and> argmax_row L i = Inr k)"

definition rows_disagree :: "ndarray \<Rightarrow> ndarray \<Rightarrow> bool" where
  "rows_disagree P L \<longleftrightarrow>
     (\<forall>i < shape0 P. \<exists>a b. argmax_row P i = Inr a \<and> argmax_row L i = Inr b \<and> a \<noteq> b)"

definition single_row_batch ::
  "(ndarray \<Rightarrow> ndarray \<Rightarrow> bool) \<Rightarrow> ndarray \<Rightarrow> ndarray \<Rightarrow> ndarray \<Rightarrow> ndarray
     \<Rightarrow> ndarray \<times> ndarray \<Rightarrow> bool" where
  "single_row_batch rel W1 b1 W2 b2 batch \<longleftrightarrow>
     (case forward_pass (fst batch) W1 b1 W2 b2 of
        Inl e \<Rightarrow> False
      | Inr (P, H) \<Rightarrow> shape0 P = 1 \<and> shape0 (snd batch) = 1 \<and> rel P (snd batch))"

text \<open>What a call leaves in the store at a reference, and a store for the examples.\<close>

definition stored_after :: "np_error + (store \<times> 'a) \<Rightarrow> ref \<Rightarrow> ndarray option" where
  "stored_after res a = (case res of Inl e \<Rightarrow> None | Inr (s', v) \<Rightarrow> Some (s' a))"

definition example_store :: store where
  "example_store a =
     (if a = 0 then NDArray 1 2 [[Fin 0, Fin 0]]
      else if a = 1 then NDArray 1 2 [[Fin 0, Fin 0]]
      else NDArray 1 1 [[Fin 0]])"

section \<open>Arrays: basic facts\<close>

lemma shape_tabulate [simp]:
  "shape0 (tabulate m n f) = m" "shape1 (tabulate m n f) = n"
  by (simp_all add: tabulate_def)

lemma item_tabulate [simp]: "i < m \<Longrightarrow> j < n \<Longrightarrow> item (tabulate m n f) i j = f i j"
  by (simp add: tabulate_def item_def)

lemma tabulate_cong:
  "m = m' \<Longrightarrow> n = n' \<Longrightarrow> (\<And>i j. i < m' \<Longrightarrow> j < n' \<Longrightarrow> f i j = g i j)
   \<Longrightarrow> tabulate m n f = tabulate m' n' g"
  by (simp add: tabulate_def)

lemma wf_tabulate [simp]: "wf (tabulate m n f)"
  by (auto simp: wf_def tabulate_def)

lemma tabulate_1_2: "tabulate (Suc 0) 2 f = NDArray 1 2 [[f 0 0, f 0 1]]"
  by (simp add: tabulate_def upt_rec)

lemma sum_upto_cong:
  assumes "n = n'" and "\<And>k. k < n' \<Longrightarrow> f k = g k"
  shows "sum_upto n f = sum_upto n' g"
proof -
  from assms have "map f [0..<n] = map g [0..<n']"
    by simp
  then show ?thesis
    unfolding sum_upto_def by (rule arg_cong)
qed

subsection \<open>Broadcasting\<close>

lemma bidx_less [simp]: "i < m \<Longrightarrow> bidx m i = i"
  by (auto simp: bidx_def)

lemma bidx_one [simp]: "bidx (Suc 0) i = 0"
  by (simp add: bidx_def)

lemma bitem_inside [simp]: "i < shape0 A \<Longrightarrow> j < shape1 A \<Longrightarrow> bitem A i j = item A i j"
  by (simp add: bitem_def)

lemma bitem_row [simp]: "shape0 A = Suc 0 \<Longrightarrow> j < shape1 A \<Longrightarrow> bitem A i j = item A 0 j"
  by (simp add: bitem_def)

lemma bitem_column [simp]: "shape1 A = Suc 0 \<Longrightarrow> i < shape0 A \<Longrightarrow> bitem A i j = item A i 0"
  by (simp add: bitem_def)

lemma bdim_same [simp]: "bdim m m = Some m"
  by (simp add: bdim_def)

lemma bdim_one_right [simp]: "bdim m (Suc 0) = Some m"
  by (simp add: bdim_def)

lemma bdim_one_left [simp]: "bdim (Suc 0) n = Some n"
  by (auto simp: bdim_def)

lemma ufunc2_same_shape:
  assumes "shape0 B = shape0 A" and "shape1 B = shape1 A"
  shows "ufunc2 f A B = Inr (tabulate (shape0 A) (shape1 A) (\<lambda>i j. f (item A i j) (item B i j)))"
proof -
  have "tabulate (shape0 A) (shape1 A) (\<lambda>i j. f (bitem A i j) (bitem B i j))
        = tabulate (shape0 A) (shape1 A) (\<lambda>i j. f (item A i j) (item B i j))"
    using assms by (intro tabulate_cong) simp_all
  with assms show ?thesis
    by (simp add: ufunc2_def)
qed

lemma ufunc2_row:
  assumes "shape0 B = 1" and "shape1 B = shape1 A"
  shows "ufunc2 f A B = Inr (tabulate (shape0 A) (shape1 A) (\<lambda>i j. f (item A i j) (item B 0 j)))"
proof -
  have "tabulate (shape0 A) (shape1 A) (\<lambda>i j. f (bitem A i j) (bitem B i j))
        = tabulate (shape0 A) (shape1 A) (\<lambda>i j. f (item A i j) (item B 0 j))"
    using assms by (intro tabulate_cong) simp_all
  with assms show ?thesis
    by (simp add: ufunc2_def)
qed

lemma ufunc2_column:
  assumes "shape0 B = shape0 A" and "shape1 B = 1"
  shows "ufunc2 f A B = Inr (tabulate (shape0 A) (shape1 A) (\<lambda>i j. f (item A i j) (item B i 0)))"
proof -
  have "tabulate (shape0 A) (shape1 A) (\<lambda>i j. f (bitem A i j) (bitem B i j))
        = tabulate (shape0 A) (shape1 A) (\<lambda>i j. f (item A i j) (item B i 0))"
    using assms by (intro tabulate_cong) simp_all
  with assms show ?thesis
    by (simp add: ufunc2_def)
qed

lemma shape_ufunc1 [simp]: "shape0 (ufunc1 f A) = shape0 A" "shape1 (ufunc1 f A) = shape1 A"
  by (simp_all add: ufunc1_def)

lemma item_ufunc1 [simp]:
  "i < shape0 A \<Longrightarrow> j < shape1 A \<Longrightarrow> item (ufunc1 f A) i j = f (item A i j)"
  by (simp add: ufunc1_def)

lemma ufunc1_tabulate: "ufunc1 f (tabulate m n g) = tabulate m n (\<lambda>i j. f (g i j))"
  by (auto simp: ufunc1_def cong: tabulate_cong)

lemma isub_same_shape:
  assumes "shape0 B = shape0 (s w)" and "shape1 B = shape1 (s w)"
  shows "isub s w B = Inr (s(w := spec_subtract (s w) B))"
proof -
  have "tabulate (shape0 (s w)) (shape1 (s w)) (\<lambda>i j. item (s w) i j - bitem B i j)
        = spec_subtract (s w) B"
    unfolding spec_subtract_def using assms by (simp cong: tabulate_cong)
  with assms show ?thesis
    by (simp add: isub_def)
qed

lemma np_sum_axis1_upto:
  "np_sum_axis1 A = map (\<lambda>i. sum_upto (shape1 A) (item A i)) [0..<shape0 A]"
  by (simp add: np_sum_axis1_def sum_upto_def)

subsection \<open>The forward pass, cell by cell\<close>

lemma np_dot_consistent:
  assumes "shape0 B = shape1 A"
  shows "np_dot A B = Inr (tabulate (shape0 A) (shape1 B)
                            (\<lambda>i j. sum_upto (shape1 A) (\<lambda>k. item A i k * item B k j)))"
  using assms by (simp add: np_dot_def sum_upto_def)

lemma shape_np_transpose [simp]:
  "shape0 (np_transpose A) = shape1 A" "shape1 (np_transpose A) = shape0 A"
  by (simp_all add: np_transpose_def)

lemma item_np_transpose [simp]:
  "i < shape1 A \<Longrightarrow> j < shape0 A \<Longrightarrow> item (np_transpose A) i j = item A j i"
  by (simp add: np_transpose_def)

lemma sigmoid_cells:
  "sigmoid A = tabulate (shape0 A) (shape1 A) (\<lambda>i j. spec_sigmoid (item A i j))"
  by (simp add: sigmoid_def np_exp_def np_negative_def ufunc1_def spec_sigmoid_def
      cong: tabulate_cong)

lemma affine_layer:
  assumes "shape0 W = shape1 X" and "shape0 b = 1" and "shape1 b = shape1 W"
  shows "(case np_dot X W of Inl e \<Rightarrow> Inl e | Inr Z \<Rightarrow> np_add Z b) = Inr (spec_affine X W b)"
  using assms
  by (simp add: np_dot_consistent np_add_def ufunc2_row spec_affine_def cong: tabulate_cong)

lemma softmax_rows: "softmax Z = Inr (spec_softmax Z)"
proof -
  let ?E = "np_exp Z"
  have "np_divide ?E (np_sum_axis1_keepdims ?E)
        = Inr (tabulate (shape0 ?E) (shape1 ?E)
                 (\<lambda>i j. item ?E i j / item (np_sum_axis1_keepdims ?E) i 0))"
    unfolding np_divide_def by (rule ufunc2_column) (simp_all add: np_sum_axis1_keepdims_def)
  also have "tabulate (shape0 ?E) (shape1 ?E)
                 (\<lambda>i j. item ?E i j / item (np_sum_axis1_keepdims ?E) i 0) = spec_softmax Z"
    unfolding spec_softmax_def
    by (simp add: np_exp_def np_sum_axis1_keepdims_def sum_upto_def [symmetric]
        cong: tabulate_cong sum_upto_cong)
  finally show ?thesis
    by (simp add: softmax_def)
qed

lemma shape_spec_affine [simp]:
  "shape0 (spec_affine X W b) = shape0 X" "shape1 (spec_affine X W b) = shape1 W"
  by (simp_all add: spec_affine_def)

lemma shape_spec_hidden [simp]:
  "shape0 (spec_hidden X W b) = shape0 X" "shape1 (spec_hidden X W b) = shape1 W"
  by (simp_all add: spec_hidden_def)

lemma sigmoid_spec_affine: "sigmoid (spec_affine X W b) = spec_hidden X W b"
  by (simp add: sigmoid_cells spec_hidden_def)

lemma tabulate_1_1: "tabulate (Suc 0) (Suc 0) f = NDArray 1 1 [[f 0 0]]"
  by (simp add: tabulate_def)

subsection \<open>Gradient descent and the gradients of backprop\<close>

lemma update_weights_same_shape:
  assumes "shape0 G = shape0 (s w)" and "shape1 G = shape1 (s w)"
  shows "update_weights s w G lr = Inr (s(w := spec_gd_step lr (s w) G), w)"
proof -
  have "spec_subtract (s w) (ufunc1 (\<lambda>v. lr * v) G) = spec_gd_step lr (s w) G"
    using assms by (simp add: spec_subtract_def spec_gd_step_def cong: tabulate_cong)
  with assms show ?thesis
    by (simp add: update_weights_def isub_same_shape)
qed

lemma GradientDescent_is_update_weights:
  "GradientDescent_update_weights self s w G = update_weights s w G (learning_rate self)"
  by (simp add: GradientDescent_update_weights_def update_weights_def)

lemma shape_spec_d_output [simp]:
  "shape0 (spec_d_output T P) = shape0 P" "shape1 (spec_d_output T P) = shape1 P"
  by (simp_all add: spec_d_output_def)

lemma shape_spec_grad_W2 [simp]:
  "shape0 (spec_grad_W2 d A) = shape1 A" "shape1 (spec_grad_W2 d A) = shape1 d"
  by (simp_all add: spec_grad_W2_def)

lemma shape_spec_delta_hidden [simp]:
  "shape0 (spec_delta_hidden A d W) = shape0 A" "shape1 (spec_delta_hidden A d W) = shape1 A"
  by (simp_all add: spec_delta_hidden_def)

lemma shape_spec_grad_W1 [simp]:
  "shape0 (spec_grad_W1 X d) = shape1 X" "shape1 (spec_grad_W1 X d) = shape1 d"
  by (simp_all add: spec_grad_W1_def)

lemma shape_spec_column_sums [simp]:
  "shape0 (spec_column_sums A) = 1" "shape1 (spec_column_sums A) = shape1 A"
  by (simp_all add: spec_column_sums_def)

lemma np_sum_axis0_keepdims_spec: "np_sum_axis0_keepdims A = spec_column_sums A"
  by (simp add: np_sum_axis0_keepdims_def spec_column_sums_def sum_upto_def)

lemma backprop_d_output:
  assumes "shape0 T = shape0 P" and "shape1 T = shape1 P"
  shows "np_subtract P T = Inr (tabulate (shape0 P) (shape1 P) (\<lambda>n c. item P n c - item T n c))"
    and "ufunc1 (\<lambda>v. v / Fin (real (shape1 T)))
           (tabulate (shape0 P) (shape1 P) (\<lambda>n c. item P n c - item T n c))
         = spec_d_output T P"
  using assms
  by (simp_all add: np_subtract_def ufunc2_same_shape ufunc1_tabulate spec_d_output_def)

lemma backprop_grad_W2:
  assumes "shape0 A = shape0 d"
  shows "np_dot (np_transpose d) A
         = Inr (tabulate (shape1 d) (shape1 A)
                  (\<lambda>c h. sum_upto (shape0 d) (\<lambda>n. item d n c * item A n h)))"
    and "np_transpose (tabulate (shape1 d) (shape1 A)
                  (\<lambda>c h. sum_upto (shape0 d) (\<lambda>n. item d n c * item A n h)))
         = spec_grad_W2 d A"
  using assms
  by (simp_all add: np_dot_consistent np_transpose_def spec_grad_W2_def
      cong: tabulate_cong sum_upto_cong)

lemma backprop_delta_hidden:
  assumes "shape0 d = shape0 A" and "shape1 W = shape1 d" and "shape0 W = shape1 A"
  shows "(case np_multiply A (ufunc1 (\<lambda>v. Fin 1 - v) A) of
            Inl e \<Rightarrow> Inl e
          | Inr sd \<Rightarrow>
              (case np_dot d (np_transpose W) of
                 Inl e \<Rightarrow> Inl e
               | Inr back \<Rightarrow> np_multiply sd back))
         = Inr (spec_delta_hidden A d W)"
  using assms
  by (simp add: np_multiply_def ufunc2_same_shape np_dot_consistent spec_delta_hidden_def
      cong: tabulate_cong sum_upto_cong)

lemma backprop_grad_W1:
  assumes "shape0 delta = shape0 X"
  shows "np_dot (np_transpose X) delta = Inr (spec_grad_W1 X delta)"
  using assms
  by (simp add: np_dot_consistent spec_grad_W1_def cong: tabulate_cong sum_upto_cong)


subsection \<open>The adaptive optimizer, step by step\<close>

lemma rmsprop_running_mean:
  assumes "val_has_shape (r self) (shape0 G) (shape1 G)"
  shows "(case r self of
            Scalar x \<Rightarrow>
              Inr (ufunc1 (\<lambda>v. v + (Fin 1 - gamma self) * x)
                     (ufunc1 (\<lambda>v. gamma self * v) (np_square G)))
          | Array R \<Rightarrow>
              np_add (ufunc1 (\<lambda>v. gamma self * v) (np_square G))
                     (ufunc1 (\<lambda>v. (Fin 1 - gamma self) * v) R))
         = Inr (spec_running_mean (gamma self) (r self) G)"
proof (cases "r self")
  case (Scalar x)
  then show ?thesis
    by (simp add: np_square_def ufunc1_def spec_running_mean_def cong: tabulate_cong)
next
  case (Array R)
  with assms have "shape0 R = shape0 G" and "shape1 R = shape1 G"
    by simp_all
  with Array show ?thesis
    by (simp add: np_add_def np_square_def ufunc2_same_shape spec_running_mean_def
        cong: tabulate_cong)
qed

lemma rmsprop_velocity:
  assumes "shape0 R = shape0 G" and "shape1 R = shape1 G"
  shows "np_multiply (ufunc1 (\<lambda>v. a / v) (ufunc1 (\<lambda>v. v + e) (np_sqrt R))) G
         = Inr (spec_velocity a e R G)"
  using assms
  by (simp add: np_multiply_def np_sqrt_def ufunc2_same_shape spec_velocity_def
      cong: tabulate_cong)

lemma shape_spec_running_mean [simp]:
  "shape0 (spec_running_mean g ro G) = shape0 G" "shape1 (spec_running_mean g ro G) = shape1 G"
  by (simp_all add: spec_running_mean_def)

lemma shape_spec_velocity [simp]:
  "shape0 (spec_velocity a e R G) = shape0 G" "shape1 (spec_velocity a e R G) = shape1 G"
  by (simp_all add: spec_velocity_def)

lemma rmsprop_update_result:
  assumes "shape0 G = shape0 (s w)" and "shape1 G = shape1 (s w)"
    and "val_has_shape (r self) (shape0 G) (shape1 G)"
  shows "RMSProp_update_weights self s w G =
           Inr (self\<lparr>r := Array (spec_running_mean (gamma self) (r self) G),
                     velocity := Array (spec_velocity (alpha self) (eps self)
                                   (spec_running_mean (gamma self) (r self) G) G)\<rparr>,
                s(w := spec_subtract (s w)
                         (spec_velocity (alpha self) (eps self)
                            (spec_running_mean (gamma self) (r self) G) G)),
                w)"
proof -
  let ?R = "spec_running_mean (gamma self) (r self) G"
  let ?V = "spec_velocity (alpha self) (eps self) ?R G"
  have "isub s w ?V = Inr (s(w := spec_subtract (s w) ?V))"
    using assms by (simp add: isub_same_shape)
  then show ?thesis
    unfolding RMSProp_update_weights_def
    by (simp add: rmsprop_running_mean [OF assms(3)] rmsprop_velocity)
qed

subsection \<open>Success and failure, by shape\<close>

lemma ufunc2_cases:
  "ufunc2 f A B =
     (if bcompat (shape0 A) (shape0 B) \<and> bcompat (shape1 A) (shape1 B)
      then Inr (tabulate (bshape (shape0 A) (shape0 B)) (bshape (shape1 A) (shape1 B))
                  (\<lambda>i j. f (bitem A i j) (bitem B i j)))
      else Inl ValueError)"
  by (auto simp: ufunc2_def bdim_def bcompat_def bshape_def)

lemma isub_cases:
  "isub s w B =
     (if fits (shape0 B) (shape0 (s w)) \<and> fits (shape1 B) (shape1 (s w))
      then Inr (s(w := tabulate (shape0 (s w)) (shape1 (s w))
                          (\<lambda>i j. item (s w) i j - bitem B i j)))
      else Inl ValueError)"
  by (simp add: isub_def fits_def)

lemma shape_sigmoid [simp]: "shape0 (sigmoid A) = shape0 A" "shape1 (sigmoid A) = shape1 A"
  by (simp_all add: sigmoid_def np_exp_def np_negative_def)

lemma shape_np_exp [simp]: "shape0 (np_exp A) = shape0 A" "shape1 (np_exp A) = shape1 A"
  by (simp_all add: np_exp_def)

lemma shape_np_sum_axis1_keepdims [simp]:
  "shape0 (np_sum_axis1_keepdims A) = shape0 A" "shape1 (np_sum_axis1_keepdims A) = 1"
  by (simp_all add: np_sum_axis1_keepdims_def)

lemma shape_np_sum_axis0_keepdims [simp]:
  "shape0 (np_sum_axis0_keepdims A) = 1" "shape1 (np_sum_axis0_keepdims A) = shape1 A"
  by (simp_all add: np_sum_axis0_keepdims_def)

lemma bcompat_simps [simp]: "bcompat m m" "bcompat m (Suc 0)" "bcompat (Suc 0) n"
  by (simp_all add: bcompat_def)

lemma bshape_simps [simp]: "bshape m m = m" "bshape m (Suc 0) = m" "bshape (Suc 0) n = n"
  by (simp_all add: bshape_def)

lemma np_dot_Inr:
  "np_dot A B = Inr C \<Longrightarrow> shape1 A = shape0 B \<and> shape0 C = shape0 A \<and> shape1 C = shape1 B"
  by (auto simp: np_dot_def split: if_splits)

lemma np_dot_ok:
  "shape1 A = shape0 B \<Longrightarrow> \<exists>C. np_dot A B = Inr C"
  by (simp add: np_dot_def)

lemma ufunc2_Inr:
  "ufunc2 f A B = Inr C \<Longrightarrow>
     bcompat (shape0 A) (shape0 B) \<and> bcompat (shape1 A) (shape1 B)
     \<and> shape0 C = bshape (shape0 A) (shape0 B) \<and> shape1 C = bshape (shape1 A) (shape1 B)"
  by (auto simp: ufunc2_cases split: if_splits)

lemma ufunc2_ok:
  "bcompat (shape0 A) (shape0 B) \<Longrightarrow> bcompat (shape1 A) (shape1 B) \<Longrightarrow> \<exists>C. ufunc2 f A B = Inr C"
  by (simp add: ufunc2_cases)

lemma update_weights_Inr:
  "update_weights s w G lr = Inr (s', w') \<Longrightarrow>
     fits (shape0 G) (shape0 (s w)) \<and> fits (shape1 G) (shape1 (s w)) \<and> w' = w
     \<and> (\<forall>a. shape0 (s' a) = shape0 (s a) \<and> shape1 (s' a) = shape1 (s a))"
  by (auto simp: update_weights_def isub_cases split: if_splits)

lemma update_weights_ok:
  "fits (shape0 G) (shape0 (s w)) \<Longrightarrow> fits (shape1 G) (shape1 (s w))
   \<Longrightarrow> \<exists>s'. update_weights s w G lr = Inr (s', w)"
  by (simp add: update_weights_def isub_cases)

lemma softmax_ok: "\<exists>P. softmax Z = Inr P"
  by (simp add: softmax_def np_divide_def ufunc2_cases)

lemma forward_pass_Inr:
  assumes "forward_pass X W1 b1 W2 b2 = Inr res"
  shows "forward_shapes_ok X W1 b1 W2 b2"
proof -
  from assms obtain Z1 hl Z2 ol where
    "np_dot X W1 = Inr Z1" and "np_add Z1 b1 = Inr hl"
    and "np_dot (sigmoid hl) W2 = Inr Z2" and "np_add Z2 b2 = Inr ol"
    by (auto simp: forward_pass_def Let_def split: sum.splits)
  then show ?thesis
    unfolding np_add_def forward_shapes_ok_def
    by (auto dest!: np_dot_Inr ufunc2_Inr)
qed

lemma forward_pass_ok:
  assumes "forward_shapes_ok X W1 b1 W2 b2"
  shows "\<exists>res. forward_pass X W1 b1 W2 b2 = Inr res"
proof -
  from assms have ok: "shape1 X = shape0 W1"
    "bcompat (shape0 X) (shape0 b1)" "bcompat (shape1 W1) (shape1 b1)"
    "bshape (shape1 W1) (shape1 b1) = shape0 W2"
    "bcompat (bshape (shape0 X) (shape0 b1)) (shape0 b2)" "bcompat (shape1 W2) (shape1 b2)"
    by (simp_all add: forward_shapes_ok_def)
  obtain Z1 where Z1: "np_dot X W1 = Inr Z1"
    using np_dot_ok ok(1) by blast
  then have s1: "shape0 Z1 = shape0 X" "shape1 Z1 = shape1 W1"
    by (auto dest: np_dot_Inr)
  obtain hl where hl: "np_add Z1 b1 = Inr hl"
    unfolding np_add_def using ufunc2_ok [of Z1 b1] ok s1 by auto
  then have s2: "shape0 hl = bshape (shape0 X) (shape0 b1)"
    "shape1 hl = bshape (shape1 W1) (shape1 b1)"
    unfolding np_add_def using s1 by (auto dest: ufunc2_Inr)
  obtain Z2 where Z2: "np_dot (sigmoid hl) W2 = Inr Z2"
    using np_dot_ok [of "sigmoid hl" W2] ok s2 by auto
  then have s3: "shape0 Z2 = bshape (shape0 X) (shape0 b1)" "shape1 Z2 = shape1 W2"
    using s2 by (auto dest: np_dot_Inr)
  obtain ol where ol: "np_add Z2 b2 = Inr ol"
    unfolding np_add_def using ufunc2_ok [of Z2 b2] ok s3 by auto
  obtain P where "softmax ol = Inr P"
    using softmax_ok by blast
  with Z1 hl Z2 ol show ?thesis
    by (simp add: forward_pass_def Let_def)
qed

lemma forward_pass_fails_iff:
  "isl (forward_pass X W1 b1 W2 b2) \<longleftrightarrow> \<not> forward_shapes_ok X W1 b1 W2 b2"
  using forward_pass_Inr [of X W1 b1 W2 b2] forward_pass_ok [of X W1 b1 W2 b2]
  by (cases "forward_pass X W1 b1 W2 b2") auto


lemma fits_bshape: "fits m n \<Longrightarrow> bshape m n = n"
  by (auto simp: fits_def bshape_def)

lemma fits_bcompat: "fits m n \<Longrightarrow> bcompat m n"
  by (auto simp: fits_def bcompat_def)

lemma fits_simps [simp]: "fits m m" "fits (Suc 0) n"
  by (simp_all add: fits_def)

lemma backprop_Inr:
  assumes "backprop s y y' A rW2 rW1 rb2 rb1 x lr = Inr res"
  shows "backprop_shapes_ok s y y' A rW2 rW1 rb2 rb1 x"
proof -
  let ?d = "\<lambda>D. ufunc1 (\<lambda>v. v / Fin (real (shape1 y))) D"
  from assms obtain D G sd bk delta gW1 s1 s2 s3 s4 w1 w2 w3 w4 where
    D: "np_subtract y' y = Inr D"
    and G: "np_dot (np_transpose (?d D)) A = Inr G"
    and sd: "np_multiply A (ufunc1 (\<lambda>v. Fin 1 - v) A) = Inr sd"
    and bk: "np_dot (?d D) (np_transpose (s rW2)) = Inr bk"
    and delta: "np_multiply sd bk = Inr delta"
    and gW1: "np_dot (np_transpose x) delta = Inr gW1"
    and u1: "update_weights s rW2 (np_transpose G) lr = Inr (s1, w1)"
    and u2: "update_weights s1 rb2 (np_sum_axis0_keepdims (?d D)) lr = Inr (s2, w2)"
    and u3: "update_weights s2 rW1 gW1 lr = Inr (s3, w3)"
    and u4: "update_weights s3 rb1 (np_sum_axis0_keepdims delta) lr = Inr (s4, w4)"
    by (auto simp: backprop_def Let_def split: sum.splits prod.splits)
  let ?n = "bshape (shape0 y') (shape0 y)" and ?c = "bshape (shape1 y') (shape1 y)"
  from D have c1: "bcompat (shape0 y') (shape0 y)" "bcompat (shape1 y') (shape1 y)"
    and sD: "shape0 D = ?n" "shape1 D = ?c"
    unfolding np_subtract_def by (auto dest: ufunc2_Inr)
  from G sD have c2: "shape0 A = ?n" and sG: "shape0 G = ?c" "shape1 G = shape1 A"
    by (auto dest: np_dot_Inr)
  from sd have ssd: "shape0 sd = shape0 A" "shape1 sd = shape1 A"
    unfolding np_multiply_def by (auto dest: ufunc2_Inr)
  from bk sD have c3: "shape1 (s rW2) = ?c" and sbk: "shape0 bk = ?n" "shape1 bk = shape0 (s rW2)"
    by (auto dest: np_dot_Inr)
  from delta ssd sbk c2 have sdelta: "shape0 delta = ?n"
      "shape1 delta = bshape (shape1 A) (shape0 (s rW2))"
    unfolding np_multiply_def by (auto dest: ufunc2_Inr)
  from gW1 sdelta have c4: "shape0 x = ?n" and sgW1: "shape0 gW1 = shape1 x"
      "shape1 gW1 = bshape (shape1 A) (shape0 (s rW2))"
    by (auto dest: np_dot_Inr)
  from u1 sG have c5: "fits (shape1 A) (shape0 (s rW2))"
    and k1: "\<And>a. shape0 (s1 a) = shape0 (s a) \<and> shape1 (s1 a) = shape1 (s a)"
    by (auto dest: update_weights_Inr)
  from u2 sD k1 have c6: "fits ?c (shape1 (s rb2))"
    and k2: "\<And>a. shape0 (s2 a) = shape0 (s a) \<and> shape1 (s2 a) = shape1 (s a)"
    by (auto dest: update_weights_Inr)
  from u3 sgW1 k2 have c7: "fits (shape1 x) (shape0 (s rW1))"
      "fits (bshape (shape1 A) (shape0 (s rW2))) (shape1 (s rW1))"
    and k3: "\<And>a. shape0 (s3 a) = shape0 (s a) \<and> shape1 (s3 a) = shape1 (s a)"
    by (auto dest: update_weights_Inr)
  from u4 sdelta k3 have c8: "fits (bshape (shape1 A) (shape0 (s rW2))) (shape1 (s rb1))"
    by (auto dest: update_weights_Inr)
  from c1 c2 c3 c4 c5 c6 c7 c8 show ?thesis
    by (simp add: backprop_shapes_ok_def fits_bshape)
qed


lemma backprop_ok:
  assumes "backprop_shapes_ok s y y' A rW2 rW1 rb2 rb1 x"
  shows "\<exists>res. backprop s y y' A rW2 rW1 rb2 rb1 x lr = Inr res"
proof -
  let ?n = "bshape (shape0 y') (shape0 y)" and ?c = "bshape (shape1 y') (shape1 y)"
  let ?d = "\<lambda>D. ufunc1 (\<lambda>v. v / Fin (real (shape1 y))) D"
  from assms have ok: "bcompat (shape0 y') (shape0 y)" "bcompat (shape1 y') (shape1 y)"
    "shape0 A = ?n" "shape1 (s rW2) = ?c" "fits (shape1 A) (shape0 (s rW2))"
    "shape0 x = ?n" "fits ?c (shape1 (s rb2))" "fits (shape1 x) (shape0 (s rW1))"
    "fits (shape0 (s rW2)) (shape1 (s rW1))" "fits (shape0 (s rW2)) (shape1 (s rb1))"
    by (simp_all add: backprop_shapes_ok_def)
  obtain D where D: "np_subtract y' y = Inr D"
    unfolding np_subtract_def using ufunc2_ok ok(1,2) by blast
  then have sD: "shape0 D = ?n" "shape1 D = ?c"
    unfolding np_subtract_def by (auto dest: ufunc2_Inr)
  obtain G where G: "np_dot (np_transpose (?d D)) A = Inr G"
    using np_dot_ok [of "np_transpose (?d D)" A] sD ok(3) by auto
  then have sG: "shape0 G = ?c" "shape1 G = shape1 A"
    using sD by (auto dest: np_dot_Inr)
  obtain sd where sd: "np_multiply A (ufunc1 (\<lambda>v. Fin 1 - v) A) = Inr sd"
    unfolding np_multiply_def using ufunc2_ok [of A "ufunc1 (\<lambda>v. Fin 1 - v) A"] by auto
  then have ssd: "shape0 sd = shape0 A" "shape1 sd = shape1 A"
    unfolding np_multiply_def by (auto dest: ufunc2_Inr)
  obtain bk where bk: "np_dot (?d D) (np_transpose (s rW2)) = Inr bk"
    using np_dot_ok [of "?d D" "np_transpose (s rW2)"] sD ok(4) by auto
  then have sbk: "shape0 bk = ?n" "shape1 bk = shape0 (s rW2)"
    using sD by (auto dest: np_dot_Inr)
  obtain delta where delta: "np_multiply sd bk = Inr delta"
    unfolding np_multiply_def
    using ufunc2_ok [of sd bk] ssd sbk ok(3) fits_bcompat [OF ok(5)] by auto
  then have sdelta: "shape0 delta = ?n" "shape1 delta = shape0 (s rW2)"
    unfolding np_multiply_def
    using ssd sbk ok(3) fits_bshape [OF ok(5)] by (auto dest: ufunc2_Inr)
  obtain gW1 where gW1: "np_dot (np_transpose x) delta = Inr gW1"
    using np_dot_ok [of "np_transpose x" delta] sdelta ok(6) by auto
  then have sgW1: "shape0 gW1 = shape1 x" "shape1 gW1 = shape0 (s rW2)"
    using sdelta by (auto dest: np_dot_Inr)
  obtain s1 where u1: "update_weights s rW2 (np_transpose G) lr = Inr (s1, rW2)"
    using update_weights_ok [of "np_transpose G" s rW2 lr] sG ok(4,5) by auto
  then have k1: "\<And>a. shape0 (s1 a) = shape0 (s a) \<and> shape1 (s1 a) = shape1 (s a)"
    by (auto dest: update_weights_Inr)
  obtain s2 where u2: "update_weights s1 rb2 (np_sum_axis0_keepdims (?d D)) lr = Inr (s2, rb2)"
    using update_weights_ok [of "np_sum_axis0_keepdims (?d D)" s1 rb2 lr] sD k1 ok(7) by auto
  then have k2: "\<And>a. shape0 (s2 a) = shape0 (s a) \<and> shape1 (s2 a) = shape1 (s a)"
    using k1 by (auto dest: update_weights_Inr)
  obtain s3 where u3: "update_weights s2 rW1 gW1 lr = Inr (s3, rW1)"
    using update_weights_ok [of gW1 s2 rW1 lr] sgW1 k2 ok(8,9) by auto
  then have k3: "\<And>a. shape0 (s3 a) = shape0 (s a) \<and> shape1 (s3 a) = shape1 (s a)"
    using k2 by (auto dest: update_weights_Inr)
  obtain s4 where u4: "update_weights s3 rb1 (np_sum_axis0_keepdims delta) lr = Inr (s4, rb1)"
    using update_weights_ok [of "np_sum_axis0_keepdims delta" s3 rb1 lr] sdelta k3 ok(10)
    by auto
  from D G sd bk delta gW1 u1 u2 u3 u4 show ?thesis
    by (simp add: backprop_def Let_def)
qed

subsection \<open>The loss and the forward pass against their formulas\<close>

lemma log_loss_eq_spec:
  assumes "shape0 T = shape0 P" and "shape1 T = shape1 P"
  shows "log_loss T P = Inr (spec_loss T P)"
proof -
  let ?N = "shape0 P" and ?C = "shape1 P"
  let ?M = "tabulate ?N ?C (\<lambda>i j. item T i j * log_f (item P i j))"
  let ?Q = "ufunc1 (\<lambda>v. v / Fin (real ?C)) ?M"
  have mult: "np_multiply T (np_log P) = Inr ?M"
    using assms
    by (simp add: np_multiply_def np_log_def ufunc2_same_shape cong: tabulate_cong)
  have row: "- sum_upto ?C (item ?Q i) = spec_row_loss T P i" if "i < ?N" for i
    unfolding spec_row_loss_def using that
    by (simp cong: sum_upto_cong)
  have "map uminus (np_sum_axis1 ?Q) = map (spec_row_loss T P) [0..<?N]"
    unfolding np_sum_axis1_upto map_map comp_def using row
    by (simp cong: map_cong)
  then show ?thesis
    by (simp add: log_loss_def mult np_mean_def spec_loss_def sum_upto_def del: map_map)
qed

lemma forward_pass_eq_spec:
  assumes "shape0 W1 = shape1 X" and "shape0 b1 = 1" and "shape1 b1 = shape1 W1"
    and "shape0 W2 = shape1 W1" and "shape0 b2 = 1" and "shape1 b2 = shape1 W2"
  shows "forward_pass X W1 b1 W2 b2
         = Inr (spec_predictions X W1 b1 W2 b2, spec_hidden X W1 b1)"
proof -
  have first: "(case np_dot X W1 of Inl e \<Rightarrow> Inl e | Inr Z \<Rightarrow> np_add Z b1)
               = Inr (spec_affine X W1 b1)"
    using assms by (simp add: affine_layer)
  have second: "(case np_dot (spec_hidden X W1 b1) W2 of Inl e \<Rightarrow> Inl e | Inr Z \<Rightarrow> np_add Z b2)
                = Inr (spec_affine (spec_hidden X W1 b1) W2 b2)"
    using assms by (simp add: affine_layer)
  from first obtain Z1 where z1: "np_dot X W1 = Inr Z1" "np_add Z1 b1 = Inr (spec_affine X W1 b1)"
    by (auto split: sum.splits)
  from second obtain Z2 where z2: "np_dot (spec_hidden X W1 b1) W2 = Inr Z2"
      "np_add Z2 b2 = Inr (spec_affine (spec_hidden X W1 b1) W2 b2)"
    by (auto split: sum.splits)
  show ?thesis
    unfolding forward_pass_def
    by (simp add: z1 z2 sigmoid_spec_affine softmax_rows spec_predictions_def Let_def)
qed


subsection \<open>Finite and non-finite values\<close>

lemma isfinite_plus [simp]: "isfinite (a + b) \<longleftrightarrow> isfinite a \<and> isfinite b"
  by (cases a; cases b; simp)

lemma isfinite_uminus [simp]: "isfinite (- a) \<longleftrightarrow> isfinite a"
  by (cases a; simp)

lemma isfinite_sum_list: "isfinite (sum_list xs) \<longleftrightarrow> (\<forall>x \<in> set xs. isfinite x)"
  by (induction xs) (simp_all add: zero_npfloat_def)

lemma isfinite_sum_upto: "isfinite (sum_upto n f) \<longleftrightarrow> (\<forall>k < n. isfinite (f k))"
  by (auto simp: sum_upto_def isfinite_sum_list)

lemma nonfinite_divide: "\<not> isfinite a \<Longrightarrow> \<not> isfinite (a / b)"
  by (cases a; cases b; simp)

lemma isfinite_divide_nat: "isfinite a \<Longrightarrow> 0 < n \<Longrightarrow> isfinite (a / Fin (real n))"
  by (cases a; simp)

lemma isfinite_times: "isfinite a \<Longrightarrow> isfinite b \<Longrightarrow> isfinite (a * b)"
  by (cases a; cases b; simp)

lemma isfinite_log: "positive_finite a \<Longrightarrow> isfinite (log_f a)"
  by (cases a; simp)

lemma nonfinite_label_times_log_zero:
  "0 < n \<Longrightarrow> \<not> isfinite (Fin 1 * log_f (Fin 0) / Fin (real n))"
  by (simp add: signed_inf_def)

lemma Fin_val: "isfinite a \<Longrightarrow> a = Fin (val a)"
  by (cases a) simp_all

lemma sum_upto_Suc: "sum_upto (Suc n) f = sum_upto n f + f n"
  by (simp add: sum_upto_def)

lemma sum_upto_Fin: "sum_upto n (\<lambda>k. Fin (f k)) = Fin (\<Sum>k<n. f k)"
  by (induction n) (simp_all add: sum_upto_Suc, simp add: sum_upto_def zero_npfloat_def)

lemma shape_spec_softmax [simp]:
  "shape0 (spec_softmax Z) = shape0 Z" "shape1 (spec_softmax Z) = shape1 Z"
  by (simp_all add: spec_softmax_def)

lemma one_hot_rows_finite: "one_hot_rows T \<Longrightarrow> all_cells isfinite T"
  unfolding one_hot_rows_def all_cells_def
proof (intro allI impI)
  fix i j
  assume rows: "\<forall>i<shape0 T. \<exists>k<shape1 T. \<forall>j<shape1 T. item T i j = (if j = k then Fin 1 else Fin 0)"
    and "i < shape0 T" and "j < shape1 T"
  then obtain k where "item T i j = (if j = k then Fin 1 else Fin 0)"
    by blast
  then show "isfinite (item T i j)"
    by simp
qed

subsection \<open>The range of the forward engine\<close>

lemma isfinite_spec_affine:
  assumes "all_cells isfinite X" and "all_cells isfinite W" and "all_cells isfinite b"
    and "shape0 W = shape1 X" and "shape0 b = 1" and "shape1 b = shape1 W"
  shows "all_cells isfinite (spec_affine X W b)"
  using assms
  by (simp add: all_cells_def spec_affine_def isfinite_sum_upto isfinite_times)

lemma sigmoid_unit_interval:
  assumes "isfinite a"
  shows "\<exists>v. spec_sigmoid a = Fin v \<and> 0 \<le> v \<and> v \<le> 1"
proof (cases a)
  case (Fin x)
  have pos: "0 < 1 + exp (- x)"
    using exp_gt_zero [of "- x"] by linarith
  have "1 / (1 + exp (- x)) \<le> 1 / 1"
    using pos by (intro divide_left_mono) simp_all
  then have "1 / (1 + exp (- x)) \<le> 1"
    by simp
  with Fin pos show ?thesis
    by (simp add: spec_sigmoid_def less_imp_le)
qed (use assms in simp_all)

lemma spec_hidden_unit_interval:
  assumes "all_cells isfinite (spec_affine X W b)" and "n < shape0 X" and "h < shape1 W"
  shows "\<exists>v. item (spec_hidden X W b) n h = Fin v \<and> 0 \<le> v \<and> v \<le> 1"
proof -
  have "isfinite (item (spec_affine X W b) n h)"
    using assms by (simp add: all_cells_def spec_affine_def)
  then show ?thesis
    using assms(2,3) by (simp add: spec_hidden_def sigmoid_unit_interval)
qed

lemma affine_of_unit_interval:
  assumes unit: "\<And>h. h < shape1 A \<Longrightarrow> \<exists>v. item A n h = Fin v \<and> 0 \<le> v \<and> v \<le> 1"
    and W: "all_cells isfinite W" and b: "all_cells isfinite b"
    and dims: "shape0 W = shape1 A" "shape0 b = 1" "shape1 b = shape1 W"
    and n: "n < shape0 A" and c: "c < shape1 W"
  shows "\<exists>z. item (spec_affine A W b) n c = Fin z
           \<and> \<bar>z\<bar> \<le> (\<Sum>h < shape0 W. \<bar>val (item W h c)\<bar>) + \<bar>val (item b 0 c)\<bar>"
proof -
  let ?H = "shape1 A"
  define a where "a = (\<lambda>h. val (item A n h))"
  define w where "w = (\<lambda>h. val (item W h c))"
  define \<beta> where "\<beta> = val (item b 0 c)"
  have a: "item A n h = Fin (a h)" and a01: "0 \<le> a h" "a h \<le> 1" if "h < ?H" for h
    using unit [OF that] by (auto simp: a_def)
  have w: "item W h c = Fin (w h)" if "h < ?H" for h
    unfolding w_def using W c dims that by (intro Fin_val) (simp add: all_cells_def)
  have \<beta>: "item b 0 c = Fin \<beta>"
    unfolding \<beta>_def using b c dims by (intro Fin_val) (simp add: all_cells_def)
  have "sum_upto ?H (\<lambda>h. item A n h * item W h c) = sum_upto ?H (\<lambda>h. Fin (a h * w h))"
    by (rule sum_upto_cong) (simp_all add: a w)
  then have cell: "item (spec_affine A W b) n c = Fin ((\<Sum>h<?H. a h * w h) + \<beta>)"
    using n c by (simp add: spec_affine_def sum_upto_Fin \<beta>)
  have "\<bar>a h * w h\<bar> \<le> \<bar>w h\<bar>" if "h < ?H" for h
  proof -
    have "\<bar>a h * w h\<bar> = a h * \<bar>w h\<bar>"
      using a01(1) [OF that] by (simp add: abs_mult)
    also have "\<dots> \<le> 1 * \<bar>w h\<bar>"
      using a01(2) [OF that] by (intro mult_right_mono) simp_all
    finally show ?thesis
      by simp
  qed
  then have "(\<Sum>h<?H. \<bar>a h * w h\<bar>) \<le> (\<Sum>h<?H. \<bar>w h\<bar>)"
    by (intro sum_mono) simp
  moreover have "\<bar>\<Sum>h<?H. a h * w h\<bar> \<le> (\<Sum>h<?H. \<bar>a h * w h\<bar>)"
    by (rule sum_abs)
  ultimately have "\<bar>(\<Sum>h<?H. a h * w h) + \<beta>\<bar> \<le> (\<Sum>h<?H. \<bar>w h\<bar>) + \<bar>\<beta>\<bar>"
    by linarith
  with cell show ?thesis
    by (simp add: w_def \<beta>_def dims)
qed

lemma softmax_distribution:
  assumes range: "\<And>j. j < shape1 Z \<Longrightarrow>
      \<exists>z. item Z n j = Fin z \<and> exp_underflow \<le> z \<and> z \<le> exp_overflow"
    and n: "n < shape0 Z" and C: "0 < shape1 Z"
  shows "(\<forall>c < shape1 Z. \<exists>p. item (spec_softmax Z) n c = Fin p \<and> 0 \<le> p)
         \<and> sum_upto (shape1 Z) (item (spec_softmax Z) n) = Fin 1"
proof -
  let ?C = "shape1 Z"
  define z where "z = (\<lambda>j. val (item Z n j))"
  define S where "S = (\<Sum>j<?C. exp (z j))"
  have z: "exp_f (item Z n j) = Fin (exp (z j))" if "j < ?C" for j
    using range [OF that] by (auto simp: z_def)
  have "sum_upto ?C (\<lambda>j. exp_f (item Z n j)) = sum_upto ?C (\<lambda>j. Fin (exp (z j)))"
    by (rule sum_upto_cong) (simp_all add: z)
  then have denom: "sum_upto ?C (\<lambda>j. exp_f (item Z n j)) = Fin S"
    by (simp add: sum_upto_Fin S_def)
  have pos: "0 < S"
    unfolding S_def using C by (intro sum_pos) auto
  have cell: "item (spec_softmax Z) n c = Fin (exp (z c) / S)" if "c < ?C" for c
    using that n pos by (simp add: spec_softmax_def denom z)
  have "sum_upto ?C (item (spec_softmax Z) n) = sum_upto ?C (\<lambda>c. Fin (exp (z c) / S))"
    by (rule sum_upto_cong) (simp_all add: cell)
  also have "\<dots> = Fin ((\<Sum>c<?C. exp (z c)) / S)"
    by (simp add: sum_upto_Fin sum_divide_distrib)
  also have "\<dots> = Fin 1"
    using pos by (simp add: S_def)
  finally have total: "sum_upto ?C (item (spec_softmax Z) n) = Fin 1" .
  have "\<exists>p. item (spec_softmax Z) n c = Fin p \<and> 0 \<le> p" if "c < ?C" for c
    using cell [OF that] pos by (auto intro: divide_nonneg_pos less_imp_le)
  with total show ?thesis
    by simp
qed

lemma logits_in_exp_range:
  assumes dims: "shape0 W1 = shape1 X" "shape0 b1 = 1" "shape1 b1 = shape1 W1"
      "shape0 W2 = shape1 W1" "shape0 b2 = 1" "shape1 b2 = shape1 W2"
    and finite: "all_cells isfinite X" "all_cells isfinite W1" "all_cells isfinite b1"
      "all_cells isfinite W2" "all_cells isfinite b2"
    and bound: "logits_bounded W2 b2"
    and n: "n < shape0 X" and c: "c < shape1 W2"
  shows "\<exists>z. item (spec_affine (spec_hidden X W1 b1) W2 b2) n c = Fin z
           \<and> exp_underflow \<le> z \<and> z \<le> exp_overflow"
proof -
  let ?A = "spec_hidden X W1 b1"
  have pre: "all_cells isfinite (spec_affine X W1 b1)"
    using dims finite by (intro isfinite_spec_affine)
  have unit: "\<exists>v. item ?A n h = Fin v \<and> 0 \<le> v \<and> v \<le> 1" if "h < shape1 ?A" for h
    using pre n that by (intro spec_hidden_unit_interval) (simp_all add: spec_hidden_def)
  have "\<exists>z. item (spec_affine ?A W2 b2) n c = Fin z
          \<and> \<bar>z\<bar> \<le> (\<Sum>h < shape0 W2. \<bar>val (item W2 h c)\<bar>) + \<bar>val (item b2 0 c)\<bar>"
    using unit finite(4,5) dims(4,5,6) n c
    by (intro affine_of_unit_interval) (simp_all add: spec_hidden_def)
  then obtain z where cell: "item (spec_affine ?A W2 b2) n c = Fin z"
    and z: "\<bar>z\<bar> \<le> (\<Sum>h < shape0 W2. \<bar>val (item W2 h c)\<bar>) + \<bar>val (item b2 0 c)\<bar>"
    by blast
  have "0 \<le> ln (real (shape1 W2))"
    using c by (intro ln_ge_zero) simp
  moreover have "(\<Sum>h < shape0 W2. \<bar>val (item W2 h c)\<bar>) + \<bar>val (item b2 0 c)\<bar>
      + ln (real (shape1 W2)) \<le> 700"
    using bound c by (simp add: logits_bounded_def)
  ultimately have "\<bar>z\<bar> \<le> 700"
    using z by linarith
  then have "exp_underflow \<le> z \<and> z \<le> exp_overflow"
    by (simp add: exp_underflow_def exp_overflow_def abs_le_iff)
  with cell show ?thesis
    by simp
qed

subsection \<open>The evaluation loop\<close>

lemma np_argmax_single_row: "shape0 A = 1 \<Longrightarrow> np_argmax A = argmax_row A 0"
  by (simp add: np_argmax_def flatten_def argmax_row_def)

lemma eval_loop_agree:
  "\<forall>b \<in> set bs. single_row_batch rows_agree W1 b1 W2 b2 b
   \<Longrightarrow> eval_loop bs W1 b1 W2 b2 c = Inr (c + length bs)"
proof (induction bs arbitrary: c)
  case Nil
  then show ?case by simp
next
  case (Cons b bs)
  obtain img lab where b: "b = (img, lab)"
    by (cases b)
  from Cons.prems b obtain P H where fw: "forward_pass img W1 b1 W2 b2 = Inr (P, H)"
    and one: "shape0 P = 1" "shape0 lab = 1" and agree: "rows_agree P lab"
    by (auto simp: single_row_batch_def split: sum.splits)
  from agree one obtain k where "argmax_row P 0 = Inr k" "argmax_row lab 0 = Inr k"
    by (auto simp: rows_agree_def)
  with one have "np_argmax P = Inr k" "np_argmax lab = Inr k"
    by (simp_all add: np_argmax_single_row)
  with fw b Cons show ?case
    by simp
qed

lemma eval_loop_disagree:
  "\<forall>b \<in> set bs. single_row_batch rows_disagree W1 b1 W2 b2 b
   \<Longrightarrow> eval_loop bs W1 b1 W2 b2 c = Inr c"
proof (induction bs arbitrary: c)
  case Nil
  then show ?case by simp
next
  case (Cons b bs)
  obtain img lab where b: "b = (img, lab)"
    by (cases b)
  from Cons.prems b obtain P H where fw: "forward_pass img W1 b1 W2 b2 = Inr (P, H)"
    and one: "shape0 P = 1" "shape0 lab = 1" and dis: "rows_disagree P lab"
    by (auto simp: single_row_batch_def split: sum.splits)
  from dis one obtain k l where "argmax_row P 0 = Inr k" "argmax_row lab 0 = Inr l" "k \<noteq> l"
    by (auto simp: rows_disagree_def)
  with one have "np_argmax P = Inr k" "np_argmax lab = Inr l" "k \<noteq> l"
    by (simp_all add: np_argmax_single_row)
  with fw b Cons show ?case
    by simp
qed

lemma forward_pass_zero_weights_one_row:
  "forward_pass (NDArray (Suc 0) (Suc 0) [[Fin 0]]) (NDArray (Suc 0) (Suc 0) [[Fin 0]]) (NDArray (Suc 0) (Suc 0) [[Fin 0]])
     (NDArray (Suc 0) 2 [[Fin 0, Fin 0]]) (NDArray (Suc 0) 2 [[Fin 0, Fin 0]])
   = Inr (NDArray (Suc 0) 2 [[Fin (1 / 2), Fin (1 / 2)]], NDArray (Suc 0) (Suc 0) [[Fin (1 / 2)]])"
  by (simp add: forward_pass_def np_dot_def np_add_def sigmoid_def softmax_def np_divide_def
      np_exp_def np_negative_def np_sum_axis1_keepdims_def ufunc2_def ufunc1_def bdim_def
      bitem_def bidx_def tabulate_def item_def Let_def upt_rec exp_overflow_def
      exp_underflow_def)

section \<open>The adaptive optimizer on a hand-computed example\<close>

text \<open>
  C6, as stated, fails. A fresh adaptive optimizer with \<open>gamma = 0.9\<close> (\<open>r = 0\<close>)
  gets the gradient \<open>[1, 1]\<close>, here the one-row array \<open>[[1, 1]]\<close>, for a weight
  of the same shape. After the update \<open>r\<close> is not \<open>[0.1, 0.1]\<close>: the code weighs the
  squared gradient by \<open>gamma\<close> and the old \<open>r\<close> by \<open>1 - gamma\<close>.
\<close>

theorem rmsprop_first_r_counterexample:
  "updated_r (RMSProp_update_weights (RMSProp_init (Some (Fin (9 / 10))) None None)
       (\<lambda>a. NDArray 1 2 [[Fin 0, Fin 0]]) 0 (NDArray 1 2 [[Fin 1, Fin 1]]))
   \<noteq> Some (Array (NDArray 1 2 [[Fin (1 / 10), Fin (1 / 10)]]))"
  by (simp add: updated_r_def RMSProp_update_weights_def RMSProp_init_def ufunc1_def
      np_square_def np_sqrt_def np_multiply_def ufunc2_def bdim_def isub_def
      tabulate_1_2 item_def minus_npfloat_def)

text \<open>
  C6, amended: after exactly one update of a freshly constructed adaptive optimizer
  with \<open>gamma = 0.9\<close> and gradient \<open>[[1, 1]]\<close>, whatever \<open>alpha\<close>, \<open>eps\<close> and the
  weight of shape \<open>(1, 2)\<close>, the update succeeds and the stored \<open>r\<close> is
  \<open>[[0.9, 0.9]]\<close>, that is \<open>(1 - gamma) * 0 + gamma * 1\<close>.
\<close>

theorem rmsprop_first_r:
  assumes "shape0 (s w) = 1" and "shape1 (s w) = 2"
  shows "updated_r (RMSProp_update_weights (RMSProp_init (Some (Fin (9 / 10))) a e) s w
            (NDArray 1 2 [[Fin 1, Fin 1]]))
         = Some (Array (NDArray 1 2 [[Fin (9 / 10), Fin (9 / 10)]]))"
  using assms
  by (simp add: updated_r_def RMSProp_update_weights_def RMSProp_init_def ufunc1_def
      np_square_def np_sqrt_def np_multiply_def ufunc2_def bdim_def isub_def
      tabulate_1_2 item_def minus_npfloat_def)

theorem rmsprop_first_r_witness:
  "shape0 ((\<lambda>a. NDArray 1 2 [[Fin 0, Fin 0]]) (0::nat)) = 1
   \<and> shape1 ((\<lambda>a. NDArray 1 2 [[Fin 0, Fin 0]]) (0::nat)) = 2
   \<and> updated_r (RMSProp_update_weights (RMSProp_init (Some (Fin (9 / 10))) None None)
         (\<lambda>a. NDArray 1 2 [[Fin 0, Fin 0]]) 0 (NDArray 1 2 [[Fin 1, Fin 1]]))
       = Some (Array (NDArray 1 2 [[Fin (9 / 10), Fin (9 / 10)]]))"
  using rmsprop_first_r [of "\<lambda>a. NDArray 1 2 [[Fin 0, Fin 0]]" 0 None None]
  by simp

section \<open>The loss function\<close>

text \<open>
  C3: for a true-label batch and a prediction batch of the same shape
  \<open>(batch_size, num_classes)\<close>, \<open>log_loss\<close> returns the mean over the batch rows of
  \<open>row_loss = - sum_i (true_i * ln pred_i / num_classes)\<close>: the division by
  \<open>num_classes\<close> is inside the sum of the row, and the mean is the sum of the row
  losses divided by the batch size.
\<close>

theorem log_loss_mean_row_loss:
  assumes "shape0 T = shape0 P" and "shape1 T = shape1 P"
  shows "log_loss T P = Inr (spec_loss T P)"
  using assms by (rule log_loss_eq_spec)

theorem log_loss_mean_row_loss_witness:
  "shape0 (NDArray 1 2 [[Fin 0, Fin 1]]) = shape0 (NDArray 1 2 [[Fin 1, Fin 1]])
   \<and> shape1 (NDArray 1 2 [[Fin 0, Fin 1]]) = shape1 (NDArray 1 2 [[Fin 1, Fin 1]])
   \<and> log_loss (NDArray 1 2 [[Fin 0, Fin 1]]) (NDArray 1 2 [[Fin 1, Fin 1]])
       = Inr (spec_loss (NDArray 1 2 [[Fin 0, Fin 1]]) (NDArray 1 2 [[Fin 1, Fin 1]]))
   \<and> spec_loss (NDArray 1 2 [[Fin 0, Fin 1]]) (NDArray 1 2 [[Fin 1, Fin 1]]) = Fin 0"
  using log_loss_mean_row_loss [of "NDArray 1 2 [[Fin 0, Fin 1]]" "NDArray 1 2 [[Fin 1, Fin 1]]"]
  by (simp add: spec_loss_def spec_row_loss_def sum_upto_def item_def upt_rec)

section \<open>The adaptive optimizer\<close>

text \<open>
  C5: for a weight tensor, a gradient of the same shape and a running statistic \<open>r\<close>
  that is the initial scalar or an array of that shape, one call of the update of the
  adaptive optimizer sets \<open>r\<close> to \<open>gamma * gradient^2 + (1 - gamma) * r\<close> (element by
  element), sets \<open>velocity\<close> to \<open>(alpha / (sqrt r + eps)) * gradient\<close> for the new
  \<open>r\<close>, and returns the weight tensor, which now holds \<open>weight - velocity\<close>. At
  construction \<open>r\<close> is zero, and the defaults are \<open>gamma = 0.9\<close>, \<open>alpha = 0.001\<close>,
  \<open>eps = 1e-8\<close>.
\<close>

theorem rmsprop_update:
  assumes "shape0 G = shape0 (s w)" and "shape1 G = shape1 (s w)"
    and "val_has_shape (r self) (shape0 G) (shape1 G)"
  shows "RMSProp_update_weights self s w G =
           Inr (self\<lparr>r := Array (spec_running_mean (gamma self) (r self) G),
                     velocity := Array (spec_velocity (alpha self) (eps self)
                                   (spec_running_mean (gamma self) (r self) G) G)\<rparr>,
                s(w := spec_subtract (s w)
                         (spec_velocity (alpha self) (eps self)
                            (spec_running_mean (gamma self) (r self) G) G)),
                w)
         \<and> r (RMSProp_init g a e) = Scalar (Fin 0)
         \<and> gamma (RMSProp_init None a e) = Fin (9 / 10)
         \<and> alpha (RMSProp_init g None e) = Fin (1 / 1000)
         \<and> eps (RMSProp_init g a None) = Fin (1 / 100000000)"
  using rmsprop_update_result [of G s w self] assms
  by (simp add: RMSProp_init_def)

theorem rmsprop_update_witness:
  "shape0 (NDArray 1 2 [[Fin 1, Fin 1]]) = shape0 ((\<lambda>a. NDArray 1 2 [[Fin 0, Fin 0]]) (0::nat))
   \<and> shape1 (NDArray 1 2 [[Fin 1, Fin 1]]) = shape1 ((\<lambda>a. NDArray 1 2 [[Fin 0, Fin 0]]) (0::nat))
   \<and> val_has_shape (r (RMSProp_init None None None)) 1 2
   \<and> updated_r (RMSProp_update_weights (RMSProp_init None None None)
         (\<lambda>a. NDArray 1 2 [[Fin 0, Fin 0]]) 0 (NDArray 1 2 [[Fin 1, Fin 1]]))
       = Some (Array (NDArray 1 2 [[Fin (9 / 10), Fin (9 / 10)]]))"
  using rmsprop_update [of "NDArray 1 2 [[Fin 1, Fin 1]]" "\<lambda>a. NDArray 1 2 [[Fin 0, Fin 0]]" 0
      "RMSProp_init None None None" None None None]
  by (simp add: RMSProp_init_def updated_r_def spec_running_mean_def tabulate_1_2 item_def
      minus_npfloat_def)


section \<open>The forward engine\<close>

text \<open>
  C2: for an input batch \<open>(N, D)\<close> and dimensionally compatible \<open>W1 (D, H)\<close>,
  \<open>b1 (1, H)\<close>, \<open>W2 (H, C)\<close>, \<open>b2 (1, C)\<close>, \<open>forward_pass\<close> returns the pair of the
  predictions and the hidden activations, where the hidden activations are
  \<open>sigmoid (X . W1 + b1)\<close>, the bias row added to every batch row and
  \<open>sigmoid x = 1 / (1 + e^-x)\<close> applied to every cell, and the predictions are the
  softmax of \<open>hidden . W2 + b2\<close>, row by row: \<open>e^row_i / sum_j e^row_j\<close>.
\<close>

theorem forward_pass_computes:
  assumes "shape0 W1 = shape1 X" and "shape0 b1 = 1" and "shape1 b1 = shape1 W1"
    and "shape0 W2 = shape1 W1" and "shape0 b2 = 1" and "shape1 b2 = shape1 W2"
  shows "forward_pass X W1 b1 W2 b2
         = Inr (spec_predictions X W1 b1 W2 b2, spec_hidden X W1 b1)"
  using assms by (rule forward_pass_eq_spec)

theorem forward_pass_computes_witness:
  "shape0 (NDArray 1 1 [[Fin 0]]) = shape1 (NDArray 1 1 [[Fin 0]])
   \<and> shape0 (NDArray 1 1 [[Fin 0]]) = 1
   \<and> shape1 (NDArray 1 1 [[Fin 0]]) = shape1 (NDArray 1 1 [[Fin 0]])
   \<and> shape0 (NDArray 1 2 [[Fin 0, Fin 0]]) = shape1 (NDArray 1 1 [[Fin 0]])
   \<and> shape0 (NDArray 1 2 [[Fin 0, Fin 0]]) = 1
   \<and> shape1 (NDArray 1 2 [[Fin 0, Fin 0]]) = shape1 (NDArray 1 2 [[Fin 0, Fin 0]])
   \<and> forward_pass (NDArray 1 1 [[Fin 0]]) (NDArray 1 1 [[Fin 0]]) (NDArray 1 1 [[Fin 0]])
         (NDArray 1 2 [[Fin 0, Fin 0]]) (NDArray 1 2 [[Fin 0, Fin 0]])
       = Inr (NDArray 1 2 [[Fin (1 / 2), Fin (1 / 2)]], NDArray 1 1 [[Fin (1 / 2)]])"
  using forward_pass_computes [of "NDArray 1 1 [[Fin 0]]" "NDArray 1 1 [[Fin 0]]"
      "NDArray 1 1 [[Fin 0]]" "NDArray 1 2 [[Fin 0, Fin 0]]" "NDArray 1 2 [[Fin 0, Fin 0]]"]
  by (simp add: spec_predictions_def spec_softmax_def spec_affine_def spec_hidden_def
      spec_sigmoid_def sum_upto_def tabulate_1_1 tabulate_1_2 item_def upt_rec
      exp_overflow_def exp_underflow_def)


section \<open>The backpropagation engine\<close>

text \<open>
  C1: for dimensionally consistent labels and predictions \<open>(N, C)\<close>, hidden activations
  \<open>(N, H)\<close>, \<open>W2 (H, C)\<close>, \<open>W1 (D, H)\<close>, \<open>b2 (1, C)\<close>, \<open>b1 (1, H)\<close> and input
  \<open>(N, D)\<close>, the four parameters being four different arrays, \<open>backprop\<close> computes
  \<open>d_output = (predictions - labels) / C\<close>, the gradient of \<open>W2\<close> as the transpose of
  \<open>transpose(d_output) . hidden\<close>,
  \<open>delta_hidden = hidden * (1 - hidden) * (d_output . transpose(W2))\<close>, the gradient
  of \<open>W1\<close> as \<open>transpose(input) . delta_hidden\<close>, and the bias gradients as the rows
  of column sums of \<open>d_output\<close> and \<open>delta_hidden\<close>; it updates each parameter with
  its gradient by the gradient-descent step of \<open>update_weights\<close>, which is what the
  optimizer \<open>GradientDescent\<close> with the same learning rate does with (current value,
  gradient), and returns \<open>(W2, b2, W1, b1)\<close>.
\<close>

theorem backprop_computes:
  assumes labels: "shape0 y = shape0 y'" "shape1 y = shape1 y'"
    and hidden: "shape0 A = shape0 y'"
    and W2: "shape0 (s rW2) = shape1 A" "shape1 (s rW2) = shape1 y'"
    and input: "shape0 x = shape0 y'"
    and W1: "shape0 (s rW1) = shape1 x" "shape1 (s rW1) = shape1 A"
    and b2: "shape0 (s rb2) = 1" "shape1 (s rb2) = shape1 y'"
    and b1: "shape0 (s rb1) = 1" "shape1 (s rb1) = shape1 A"
    and refs: "distinct [rW2, rb2, rW1, rb1]"
  shows "backprop s y y' A rW2 rW1 rb2 rb1 x lr =
           (let d = spec_d_output y y';
                delta = spec_delta_hidden A d (s rW2)
            in Inr (s(rW2 := spec_gd_step lr (s rW2) (spec_grad_W2 d A),
                      rb2 := spec_gd_step lr (s rb2) (spec_column_sums d),
                      rW1 := spec_gd_step lr (s rW1) (spec_grad_W1 x delta),
                      rb1 := spec_gd_step lr (s rb1) (spec_column_sums delta)),
                    (rW2, rb2, rW1, rb1)))
         \<and> (\<forall>s' w G. GradientDescent_update_weights (GradientDescent_init (Some lr)) s' w G
                       = update_weights s' w G lr)"
proof -
  let ?d = "spec_d_output y y'"
  let ?delta = "spec_delta_hidden A ?d (s rW2)"
  let ?s1 = "s(rW2 := spec_gd_step lr (s rW2) (spec_grad_W2 ?d A))"
  let ?s2 = "?s1(rb2 := spec_gd_step lr (s rb2) (spec_column_sums ?d))"
  let ?s3 = "?s2(rW1 := spec_gd_step lr (s rW1) (spec_grad_W1 x ?delta))"
  let ?s4 = "?s3(rb1 := spec_gd_step lr (s rb1) (spec_column_sums ?delta))"
  note d = backprop_d_output [OF labels]
  obtain G where g2: "np_dot (np_transpose ?d) A = Inr G" "np_transpose G = spec_grad_W2 ?d A"
    using backprop_grad_W2 [of A ?d] hidden by simp
  have "(case np_multiply A (ufunc1 (\<lambda>v. Fin 1 - v) A) of
            Inl e \<Rightarrow> Inl e
          | Inr sd \<Rightarrow>
              (case np_dot ?d (np_transpose (s rW2)) of
                 Inl e \<Rightarrow> Inl e
               | Inr bk \<Rightarrow> np_multiply sd bk))
         = Inr ?delta"
    using hidden W2 by (intro backprop_delta_hidden) simp_all
  then obtain sd bk where
    sd: "np_multiply A (ufunc1 (\<lambda>v. Fin 1 - v) A) = Inr sd"
    and dot: "np_dot ?d (np_transpose (s rW2)) = Inr bk"
    and delta: "np_multiply sd bk = Inr ?delta"
    by (auto split: sum.splits)
  have g1: "np_dot (np_transpose x) ?delta = Inr (spec_grad_W1 x ?delta)"
    using hidden input by (intro backprop_grad_W1) simp
  have u1: "update_weights s rW2 (spec_grad_W2 ?d A) lr = Inr (?s1, rW2)"
    using W2 by (intro update_weights_same_shape) simp_all
  have u2: "update_weights ?s1 rb2 (spec_column_sums ?d) lr = Inr (?s2, rb2)"
    using update_weights_same_shape [of "spec_column_sums ?d" ?s1 rb2 lr] b2 refs
    by simp
  have u3: "update_weights ?s2 rW1 (spec_grad_W1 x ?delta) lr = Inr (?s3, rW1)"
    using update_weights_same_shape [of "spec_grad_W1 x ?delta" ?s2 rW1 lr] W1 refs
    by simp
  have u4: "update_weights ?s3 rb1 (spec_column_sums ?delta) lr = Inr (?s4, rb1)"
    using update_weights_same_shape [of "spec_column_sums ?delta" ?s3 rb1 lr] b1 refs
    by simp
  have "backprop s y y' A rW2 rW1 rb2 rb1 x lr = Inr (?s4, (rW2, rb2, rW1, rb1))"
    unfolding backprop_def
    using hidden
    by (simp add: d g2 sd dot delta g1 u1 u2 u3 u4 np_sum_axis0_keepdims_spec Let_def)
  then show ?thesis
    by (simp add: Let_def GradientDescent_is_update_weights GradientDescent_init_def)
qed


theorem backprop_computes_witness:
  "shape0 (NDArray 1 2 [[Fin 1, Fin 0]]) = shape0 (NDArray 1 2 [[Fin (1 / 2), Fin (1 / 2)]])
   \<and> shape1 (NDArray 1 2 [[Fin 1, Fin 0]]) = shape1 (NDArray 1 2 [[Fin (1 / 2), Fin (1 / 2)]])
   \<and> shape0 (NDArray 1 1 [[Fin (1 / 2)]]) = shape0 (NDArray 1 2 [[Fin (1 / 2), Fin (1 / 2)]])
   \<and> shape0 (example_store 0) = shape1 (NDArray 1 1 [[Fin (1 / 2)]])
   \<and> shape1 (example_store 0) = shape1 (NDArray 1 2 [[Fin (1 / 2), Fin (1 / 2)]])
   \<and> shape0 (NDArray 1 1 [[Fin 1]]) = shape0 (NDArray 1 2 [[Fin (1 / 2), Fin (1 / 2)]])
   \<and> shape0 (example_store 2) = shape1 (NDArray 1 1 [[Fin 1]])
   \<and> shape1 (example_store 2) = shape1 (NDArray 1 1 [[Fin (1 / 2)]])
   \<and> shape0 (example_store 1) = 1
   \<and> shape1 (example_store 1) = shape1 (NDArray 1 2 [[Fin (1 / 2), Fin (1 / 2)]])
   \<and> shape0 (example_store 3) = 1
   \<and> shape1 (example_store 3) = shape1 (NDArray 1 1 [[Fin (1 / 2)]])
   \<and> distinct [0, 1, 2, 3 :: nat]
   \<and> stored_after (backprop example_store (NDArray 1 2 [[Fin 1, Fin 0]])
         (NDArray 1 2 [[Fin (1 / 2), Fin (1 / 2)]]) (NDArray 1 1 [[Fin (1 / 2)]])
         0 2 1 3 (NDArray 1 1 [[Fin 1]]) (Fin 1)) 0
       = Some (NDArray 1 2 [[Fin (1 / 8), Fin (- 1 / 8)]])
   \<and> map_sum id snd (backprop example_store (NDArray 1 2 [[Fin 1, Fin 0]])
         (NDArray 1 2 [[Fin (1 / 2), Fin (1 / 2)]]) (NDArray 1 1 [[Fin (1 / 2)]])
         0 2 1 3 (NDArray 1 1 [[Fin 1]]) (Fin 1))
       = Inr (0, 1, 2, 3)"
  using backprop_computes [of "NDArray 1 2 [[Fin 1, Fin 0]]"
      "NDArray 1 2 [[Fin (1 / 2), Fin (1 / 2)]]" "NDArray 1 1 [[Fin (1 / 2)]]"
      example_store 0 "NDArray 1 1 [[Fin 1]]" 2 1 3 "Fin 1"]
  by (simp add: example_store_def stored_after_def Let_def spec_gd_step_def spec_grad_W2_def
      spec_d_output_def sum_upto_def tabulate_1_1 tabulate_1_2 item_def minus_npfloat_def)


section \<open>The update of an optimizer and its weight argument\<close>

text \<open>
  C10, as stated, fails: the update does not leave its weight-tensor argument as it
  was. The gradient-descent optimizer with the default learning rate is handed the
  weight \<open>[[0, 0]]\<close> and the gradient \<open>[[1, 1]]\<close>; after the call the array the
  caller passed holds \<open>[[-0.001, -0.001]]\<close>.
\<close>

theorem update_modifies_weight_argument:
  "example_store 0 = NDArray 1 2 [[Fin 0, Fin 0]]
   \<and> GradientDescent_update_weights (GradientDescent_init None) example_store 0
         (NDArray 1 2 [[Fin 1, Fin 1]])
       = Inr (example_store (0 := NDArray 1 2 [[Fin (- 1 / 1000), Fin (- 1 / 1000)]]), 0)
   \<and> stored_after (GradientDescent_update_weights (GradientDescent_init None) example_store 0
         (NDArray 1 2 [[Fin 1, Fin 1]])) 0
       \<noteq> Some (example_store 0)"
  by (simp add: GradientDescent_update_weights_def GradientDescent_init_def isub_def
      example_store_def stored_after_def ufunc1_def tabulate_1_2 item_def bitem_def
      minus_npfloat_def)

text \<open>
  C10, amended: for a weight tensor and a gradient of the same shape, the update of an
  optimizer (\<open>GradientDescent\<close>, \<open>RMSProp\<close>, and \<open>update_weights\<close> of the network
  module) overwrites its weight-tensor argument in place with the new weights and
  returns that same tensor; no other array of the store changes. The new weights are a
  function of the old weights and the gradient, and for the adaptive variant of its
  running statistics, which change between calls.
\<close>

theorem update_in_place:
  assumes "shape0 G = shape0 (s w)" and "shape1 G = shape1 (s w)"
    and "val_has_shape (r opt) (shape0 G) (shape1 G)"
  shows "GradientDescent_update_weights gd s w G
           = Inr (s(w := spec_gd_step (learning_rate gd) (s w) G), w)
         \<and> update_weights s w G lr = Inr (s(w := spec_gd_step lr (s w) G), w)
         \<and> (\<exists>opt'. RMSProp_update_weights opt s w G
                     = Inr (opt',
                            s(w := spec_subtract (s w)
                                     (spec_velocity (alpha opt) (eps opt)
                                        (spec_running_mean (gamma opt) (r opt) G) G)),
                            w))"
  using assms rmsprop_update_result [of G s w opt]
  by (simp add: GradientDescent_is_update_weights update_weights_same_shape)

theorem update_in_place_witness:
  "shape0 (NDArray 1 2 [[Fin 1, Fin 1]]) = shape0 (example_store 0)
   \<and> shape1 (NDArray 1 2 [[Fin 1, Fin 1]]) = shape1 (example_store 0)
   \<and> val_has_shape (r (RMSProp_init None None None)) 1 2
   \<and> GradientDescent_update_weights (GradientDescent_init None) example_store 0
         (NDArray 1 2 [[Fin 1, Fin 1]])
       = Inr (example_store (0 := NDArray 1 2 [[Fin (- 1 / 1000), Fin (- 1 / 1000)]]), 0)
   \<and> update_weights example_store 0 (NDArray 1 2 [[Fin 1, Fin 1]]) (Fin (1 / 2))
       = Inr (example_store (0 := NDArray 1 2 [[Fin (- 1 / 2), Fin (- 1 / 2)]]), 0)
   \<and> (\<exists>opt' s'. RMSProp_update_weights (RMSProp_init None None None) example_store 0
                      (NDArray 1 2 [[Fin 1, Fin 1]])
                    = Inr (opt', s', 0))"
  using update_in_place [of "NDArray 1 2 [[Fin 1, Fin 1]]" example_store 0
      "RMSProp_init None None None" "GradientDescent_init None" "Fin (1 / 2)"]
  by (auto simp: example_store_def RMSProp_init_def GradientDescent_init_def spec_gd_step_def
      tabulate_1_2 item_def minus_npfloat_def split: sum.splits)


section \<open>Shape mismatches\<close>

text \<open>
  C8, as stated, fails: \<open>backprop\<close> is handed a label batch of one row and a prediction
  batch of two rows. No bias is involved, the shapes differ, and yet the call returns:
  numpy broadcasts the label row to both prediction rows, and the hidden-to-output
  weights are updated with the resulting gradient.
\<close>

theorem backprop_broadcasts_one_label_row:
  "shape0 (NDArray 1 2 [[Fin 1, Fin 0]]) = 1
   \<and> shape0 (NDArray 2 2 [[Fin (1 / 2), Fin (1 / 2)], [Fin (1 / 2), Fin (1 / 2)]]) = 2
   \<and> stored_after
         (backprop example_store (NDArray 1 2 [[Fin 1, Fin 0]])
            (NDArray 2 2 [[Fin (1 / 2), Fin (1 / 2)], [Fin (1 / 2), Fin (1 / 2)]])
            (NDArray 2 1 [[Fin (1 / 2)], [Fin (1 / 2)]]) 0 2 1 3
            (NDArray 2 1 [[Fin 1], [Fin 1]]) (Fin 1)) 0
       = Some (NDArray 1 2 [[Fin (1 / 4), Fin (- 1 / 4)]])"
  by (simp add: backprop_def stored_after_def example_store_def update_weights_def isub_def
      np_subtract_def np_multiply_def np_dot_def np_transpose_def np_sum_axis0_keepdims_def
      ufunc2_def ufunc1_def bdim_def bitem_def bidx_def tabulate_def item_def Let_def
      minus_npfloat_def upt_rec)

text \<open>
  C8, amended: \<open>backprop\<close> and \<open>forward_pass\<close> fail exactly when two operand shapes are
  incompatible under numpy's rules: the inner dimensions of a matrix product differ,
  the lengths of two element-wise operands differ in a dimension where neither is 1, or
  the gradient of an in-place update does not fit the parameter. Operands that differ
  only in a dimension of length 1 are broadcast without any failure.
\<close>

theorem shape_mismatch_fails_unless_broadcast:
  "(isl (backprop s y y' A rW2 rW1 rb2 rb1 x lr)
     \<longleftrightarrow> \<not> backprop_shapes_ok s y y' A rW2 rW1 rb2 rb1 x)
   \<and> (isl (forward_pass X W1 b1 W2' b2) \<longleftrightarrow> \<not> forward_shapes_ok X W1 b1 W2' b2)"
proof -
  have "isl (backprop s y y' A rW2 rW1 rb2 rb1 x lr)
        \<longleftrightarrow> \<not> backprop_shapes_ok s y y' A rW2 rW1 rb2 rb1 x"
    using backprop_Inr [of s y y' A rW2 rW1 rb2 rb1 x lr]
      backprop_ok [of s y y' A rW2 rW1 rb2 rb1 x lr]
    by (cases "backprop s y y' A rW2 rW1 rb2 rb1 x lr") auto
  then show ?thesis
    by (simp add: forward_pass_fails_iff)
qed



theorem shape_mismatch_fails_unless_broadcast_witness:
  "backprop_shapes_ok example_store (NDArray 1 2 [[Fin 1, Fin 0]])
     (NDArray 2 2 [[Fin (1 / 2), Fin (1 / 2)], [Fin (1 / 2), Fin (1 / 2)]])
     (NDArray 2 1 [[Fin (1 / 2)], [Fin (1 / 2)]]) 0 2 1 3 (NDArray 2 1 [[Fin 1], [Fin 1]])
   \<and> \<not> isl (backprop example_store (NDArray 1 2 [[Fin 1, Fin 0]])
         (NDArray 2 2 [[Fin (1 / 2), Fin (1 / 2)], [Fin (1 / 2), Fin (1 / 2)]])
         (NDArray 2 1 [[Fin (1 / 2)], [Fin (1 / 2)]]) 0 2 1 3 (NDArray 2 1 [[Fin 1], [Fin 1]])
         (Fin 1))
   \<and> \<not> forward_shapes_ok (NDArray 2 3 [[Fin 0, Fin 0, Fin 0], [Fin 0, Fin 0, Fin 0]])
         (NDArray 2 1 [[Fin 0], [Fin 0]]) (NDArray 1 1 [[Fin 0]])
         (NDArray 1 2 [[Fin 0, Fin 0]]) (NDArray 1 2 [[Fin 0, Fin 0]])
   \<and> isl (forward_pass (NDArray 2 3 [[Fin 0, Fin 0, Fin 0], [Fin 0, Fin 0, Fin 0]])
         (NDArray 2 1 [[Fin 0], [Fin 0]]) (NDArray 1 1 [[Fin 0]])
         (NDArray 1 2 [[Fin 0, Fin 0]]) (NDArray 1 2 [[Fin 0, Fin 0]]))"
  using shape_mismatch_fails_unless_broadcast [of example_store "NDArray 1 2 [[Fin 1, Fin 0]]"
      "NDArray 2 2 [[Fin (1 / 2), Fin (1 / 2)], [Fin (1 / 2), Fin (1 / 2)]]"
      "NDArray 2 1 [[Fin (1 / 2)], [Fin (1 / 2)]]" 0 2 1 3 "NDArray 2 1 [[Fin 1], [Fin 1]]"
      "Fin 1" "NDArray 2 3 [[Fin 0, Fin 0, Fin 0], [Fin 0, Fin 0, Fin 0]]"
      "NDArray 2 1 [[Fin 0], [Fin 0]]" "NDArray 1 1 [[Fin 0]]"
      "NDArray 1 2 [[Fin 0, Fin 0]]" "NDArray 1 2 [[Fin 0, Fin 0]]"]
  by (simp add: backprop_shapes_ok_def forward_shapes_ok_def example_store_def bcompat_def
      bshape_def fits_def)

section \<open>Accuracy\<close>

text \<open>
  C7: the accuracy \<open>main\<close> reports is computed on the batches of the evaluation
  batcher, which is built with batch size 1, so every processed batch has a single row.
  When \<open>NO_EXAMPLES_TEST\<close> is positive: if in every processed batch the argmax of the
  prediction row equals the argmax of the label row, for all rows of the batch, and the
  batcher yields \<open>NO_EXAMPLES_TEST\<close> batches, the reported accuracy
  \<open>correct_predictions / NO_EXAMPLES_TEST\<close> is 1.0; if no row of any batch matches,
  the reported accuracy is 0.0.
\<close>

theorem accuracy_all_or_none:
  assumes "0 < NO_EXAMPLES_TEST"
  shows "((\<forall>b \<in> set batches. single_row_batch rows_agree W1 b1 W2 b2 b)
            \<and> length batches = NO_EXAMPLES_TEST
          \<longrightarrow> test_accuracy batches W1 b1 W2 b2 NO_EXAMPLES_TEST = Inr 1)
         \<and> ((\<forall>b \<in> set batches. single_row_batch rows_disagree W1 b1 W2 b2 b)
          \<longrightarrow> test_accuracy batches W1 b1 W2 b2 NO_EXAMPLES_TEST = Inr 0)"
  using assms
  by (auto simp: test_accuracy_def eval_loop_agree eval_loop_disagree)


theorem accuracy_all_or_none_witness:
  "(0::nat) < 1
   \<and> single_row_batch rows_agree (NDArray 1 1 [[Fin 0]]) (NDArray 1 1 [[Fin 0]])
         (NDArray 1 2 [[Fin 0, Fin 0]]) (NDArray 1 2 [[Fin 0, Fin 0]])
         (NDArray 1 1 [[Fin 0]], NDArray 1 2 [[Fin 1, Fin 0]])
   \<and> length [(NDArray 1 1 [[Fin 0]], NDArray 1 2 [[Fin 1, Fin 0]])] = 1
   \<and> test_accuracy [(NDArray 1 1 [[Fin 0]], NDArray 1 2 [[Fin 1, Fin 0]])]
         (NDArray 1 1 [[Fin 0]]) (NDArray 1 1 [[Fin 0]])
         (NDArray 1 2 [[Fin 0, Fin 0]]) (NDArray 1 2 [[Fin 0, Fin 0]]) 1 = Inr 1
   \<and> single_row_batch rows_disagree (NDArray 1 1 [[Fin 0]]) (NDArray 1 1 [[Fin 0]])
         (NDArray 1 2 [[Fin 0, Fin 0]]) (NDArray 1 2 [[Fin 0, Fin 0]])
         (NDArray 1 1 [[Fin 0]], NDArray 1 2 [[Fin 0, Fin 1]])
   \<and> test_accuracy [(NDArray 1 1 [[Fin 0]], NDArray 1 2 [[Fin 0, Fin 1]])]
         (NDArray 1 1 [[Fin 0]]) (NDArray 1 1 [[Fin 0]])
         (NDArray 1 2 [[Fin 0, Fin 0]]) (NDArray 1 2 [[Fin 0, Fin 0]]) 1 = Inr 0"
proof -
  have agree: "single_row_batch rows_agree (NDArray 1 1 [[Fin 0]]) (NDArray 1 1 [[Fin 0]])
      (NDArray 1 2 [[Fin 0, Fin 0]]) (NDArray 1 2 [[Fin 0, Fin 0]])
      (NDArray 1 1 [[Fin 0]], NDArray 1 2 [[Fin 1, Fin 0]])"
    by (simp add: single_row_batch_def forward_pass_zero_weights_one_row rows_agree_def
        argmax_row_def argmax_list_def item_def upt_rec)
  have disagree: "single_row_batch rows_disagree (NDArray 1 1 [[Fin 0]]) (NDArray 1 1 [[Fin 0]])
      (NDArray 1 2 [[Fin 0, Fin 0]]) (NDArray 1 2 [[Fin 0, Fin 0]])
      (NDArray 1 1 [[Fin 0]], NDArray 1 2 [[Fin 0, Fin 1]])"
    by (simp add: single_row_batch_def forward_pass_zero_weights_one_row rows_disagree_def
        argmax_row_def argmax_list_def item_def upt_rec)
  show ?thesis
    using agree disagree
      accuracy_all_or_none [of 1 "[(NDArray 1 1 [[Fin 0]], NDArray 1 2 [[Fin 1, Fin 0]])]"
        "NDArray 1 1 [[Fin 0]]" "NDArray 1 1 [[Fin 0]]" "NDArray 1 2 [[Fin 0, Fin 0]]"
        "NDArray 1 2 [[Fin 0, Fin 0]]"]
      accuracy_all_or_none [of 1 "[(NDArray 1 1 [[Fin 0]], NDArray 1 2 [[Fin 0, Fin 1]])]"
        "NDArray 1 1 [[Fin 0]]" "NDArray 1 1 [[Fin 0]]" "NDArray 1 2 [[Fin 0, Fin 0]]"
        "NDArray 1 2 [[Fin 0, Fin 0]]"]
    by simp
qed

section \<open>Non-finite losses\<close>

text \<open>
  C9, as stated, fails in its last part. The labels \<open>[[1, 0]]\<close> are one-hot and the
  prediction at the position of the true label is 1, strictly positive; the other
  prediction is 0. The loss is NaN, not a finite number: \<open>log 0\<close> is \<open>-inf\<close> and
  \<open>0 * -inf\<close> is NaN.
\<close>

theorem log_loss_nan_counterexample:
  "one_hot_rows (NDArray 1 2 [[Fin 1, Fin 0]])
   \<and> item (NDArray 1 2 [[Fin 1, Fin 0]]) 0 0 = Fin 1
   \<and> positive_finite (item (NDArray 1 2 [[Fin 1, Fin 0]]) 0 0)
   \<and> log_loss (NDArray 1 2 [[Fin 1, Fin 0]]) (NDArray 1 2 [[Fin 1, Fin 0]]) = Inr NaN"
proof -
  have "one_hot_rows (NDArray 1 2 [[Fin 1, Fin 0]])"
    unfolding one_hot_rows_def
    by (auto simp: item_def less_Suc_eq numeral_2_eq_2 intro!: exI [of _ 0])
  then show ?thesis
    by (simp add: log_loss_def np_multiply_def np_log_def ufunc2_def ufunc1_def bdim_def
      bitem_def bidx_def np_sum_axis1_def np_mean_def tabulate_def item_def upt_rec
      signed_inf_def)
qed

text \<open>
  C9, amended: for label and prediction batches of the same shape, \<open>log_loss\<close> returns
  a non-finite value, with no guard, clamp or exception, when for some batch row a
  prediction is exactly zero at a position where the label is 1; and it returns a
  finite value for a non-empty batch of one-hot label rows when all predictions, not
  only those at the true-label positions, are finite and strictly positive.
\<close>

theorem log_loss_finiteness:
  assumes "shape0 T = shape0 P" and "shape1 T = shape1 P"
  shows "(i < shape0 P \<and> j < shape1 P \<and> item T i j = Fin 1 \<and> item P i j = Fin 0
            \<longrightarrow> (\<exists>v. log_loss T P = Inr v \<and> \<not> isfinite v))
         \<and> (0 < shape0 P \<and> one_hot_rows T \<and> all_cells positive_finite P
            \<longrightarrow> (\<exists>v. log_loss T P = Inr v \<and> isfinite v))"
proof (intro conjI impI)
  assume "i < shape0 P \<and> j < shape1 P \<and> item T i j = Fin 1 \<and> item P i j = Fin 0"
  then have ij: "i < shape0 P" "j < shape1 P" and cell: "item T i j = Fin 1" "item P i j = Fin 0"
    by simp_all
  from ij(2) have "\<not> isfinite (item T i j * log_f (item P i j) / Fin (real (shape1 P)))"
    unfolding cell by (intro nonfinite_label_times_log_zero) simp
  with ij(2) have "\<not> isfinite (spec_row_loss T P i)"
    by (auto simp: spec_row_loss_def isfinite_sum_upto)
  with ij(1) have "\<not> isfinite (sum_upto (shape0 P) (spec_row_loss T P))"
    by (auto simp: isfinite_sum_upto)
  then have "\<not> isfinite (spec_loss T P)"
    unfolding spec_loss_def by (rule nonfinite_divide)
  then show "\<exists>v. log_loss T P = Inr v \<and> \<not> isfinite v"
    using log_loss_eq_spec [OF assms] by simp
next
  assume "0 < shape0 P \<and> one_hot_rows T \<and> all_cells positive_finite P"
  then have N: "0 < shape0 P" and "all_cells isfinite T" and "all_cells positive_finite P"
    by (simp_all add: one_hot_rows_finite)
  then have T: "\<And>n c. n < shape0 P \<Longrightarrow> c < shape1 P \<Longrightarrow> isfinite (item T n c)"
    and P: "\<And>n c. n < shape0 P \<Longrightarrow> c < shape1 P \<Longrightarrow> positive_finite (item P n c)"
    using assms by (simp_all add: all_cells_def)
  have "isfinite (item T n c * log_f (item P n c) / Fin (real (shape1 P)))"
    if "n < shape0 P" "c < shape1 P" for n c
    using that T P by (intro isfinite_divide_nat isfinite_times isfinite_log) simp_all
  then have "isfinite (spec_row_loss T P n)" if "n < shape0 P" for n
    using that by (simp add: spec_row_loss_def isfinite_sum_upto)
  then have "isfinite (sum_upto (shape0 P) (spec_row_loss T P))"
    by (simp add: isfinite_sum_upto)
  with N have "isfinite (spec_loss T P)"
    unfolding spec_loss_def by (intro isfinite_divide_nat)
  then show "\<exists>v. log_loss T P = Inr v \<and> isfinite v"
    using log_loss_eq_spec [OF assms] by simp
qed

theorem log_loss_finiteness_witness:
  "shape0 (NDArray 1 2 [[Fin 1, Fin 0]]) = shape0 (NDArray 1 2 [[Fin 0, Fin 1]])
   \<and> shape1 (NDArray 1 2 [[Fin 1, Fin 0]]) = shape1 (NDArray 1 2 [[Fin 0, Fin 1]])
   \<and> (0::nat) < shape0 (NDArray 1 2 [[Fin 0, Fin 1]])
   \<and> (0::nat) < shape1 (NDArray 1 2 [[Fin 0, Fin 1]])
   \<and> item (NDArray 1 2 [[Fin 1, Fin 0]]) 0 0 = Fin 1
   \<and> item (NDArray 1 2 [[Fin 0, Fin 1]]) 0 0 = Fin 0
   \<and> (\<exists>v. log_loss (NDArray 1 2 [[Fin 1, Fin 0]]) (NDArray 1 2 [[Fin 0, Fin 1]]) = Inr v
           \<and> \<not> isfinite v)
   \<and> shape0 (NDArray 1 2 [[Fin 1, Fin 0]]) = shape0 (NDArray 1 2 [[Fin (1 / 2), Fin (1 / 2)]])
   \<and> shape1 (NDArray 1 2 [[Fin 1, Fin 0]]) = shape1 (NDArray 1 2 [[Fin (1 / 2), Fin (1 / 2)]])
   \<and> one_hot_rows (NDArray 1 2 [[Fin 1, Fin 0]])
   \<and> all_cells positive_finite (NDArray 1 2 [[Fin (1 / 2), Fin (1 / 2)]])
   \<and> (\<exists>v. log_loss (NDArray 1 2 [[Fin 1, Fin 0]]) (NDArray 1 2 [[Fin (1 / 2), Fin (1 / 2)]])
             = Inr v \<and> isfinite v)"
proof -
  have labels: "one_hot_rows (NDArray 1 2 [[Fin 1, Fin 0]])"
    unfolding one_hot_rows_def
    by (auto simp: item_def less_Suc_eq numeral_2_eq_2 intro!: exI [of _ 0])
  have cells: "all_cells positive_finite (NDArray 1 2 [[Fin (1 / 2), Fin (1 / 2)]])"
    by (auto simp: all_cells_def item_def less_Suc_eq numeral_2_eq_2)
  show ?thesis
    using labels cells
      log_loss_finiteness [of "NDArray 1 2 [[Fin 1, Fin 0]]" "NDArray 1 2 [[Fin 0, Fin 1]]" 0 0]
      log_loss_finiteness [of "NDArray 1 2 [[Fin 1, Fin 0]]"
        "NDArray 1 2 [[Fin (1 / 2), Fin (1 / 2)]]" 0 0]
    by (simp add: item_def)
qed

section \<open>Predictions as probability distributions\<close>

text \<open>
  C4, as stated, fails. With dimensionally compatible parameters, the input batch
  \<open>[[0]]\<close> and the finite output bias \<open>[[1000, 0]]\<close>, the row of predictions is
  \<open>[[nan, 0]]\<close>: the exponential of 1000 overflows to \<open>inf\<close>, and \<open>inf / inf\<close> is
  NaN. And with no class at all the rows of the predictions are empty and sum to 0.
\<close>

theorem forward_pass_nan_counterexample:
  "all_cells isfinite (NDArray 1 2 [[Fin 1000, Fin 0]])
   \<and> forward_pass (NDArray 1 1 [[Fin 0]]) (NDArray 1 1 [[Fin 0]]) (NDArray 1 1 [[Fin 0]])
       (NDArray 1 2 [[Fin 0, Fin 0]]) (NDArray 1 2 [[Fin 1000, Fin 0]])
     = Inr (NDArray 1 2 [[NaN, Fin 0]], NDArray 1 1 [[Fin (1 / 2)]])
   \<and> forward_pass (NDArray 1 1 [[Fin 0]]) (NDArray 1 1 [[Fin 0]]) (NDArray 1 1 [[Fin 0]])
       (NDArray 1 0 [[]]) (NDArray 1 0 [[]])
     = Inr (NDArray 1 0 [[]], NDArray 1 1 [[Fin (1 / 2)]])
   \<and> sum_upto 0 (item (NDArray 1 0 [[]]) 0) = Fin 0"
proof -
  have "all_cells isfinite (NDArray 1 2 [[Fin 1000, Fin 0]])"
    by (auto simp: all_cells_def item_def less_Suc_eq numeral_2_eq_2)
  then show ?thesis
    by (simp add: forward_pass_def np_dot_def np_add_def sigmoid_def softmax_def np_divide_def
      np_exp_def np_negative_def np_sum_axis1_keepdims_def ufunc2_def ufunc1_def bdim_def
      bitem_def bidx_def tabulate_def item_def Let_def sum_upto_def upt_rec zero_npfloat_def
      exp_overflow_def exp_underflow_def)
qed

text \<open>
  C4, amended: for a finite input batch and finite, dimensionally compatible parameter
  tensors with at least one class, whose magnitudes keep the first layer from
  overflowing (for every batch row \<open>n\<close> and hidden unit \<open>h\<close>, the sum over \<open>d\<close> of
  \<open>|X[n, d] * W1[d, h]|\<close>, plus \<open>|b1[h]|\<close>, is at most \<open>10 ^ 300\<close>) and keep the
  logits inside the range of the exponential (for every class \<open>c\<close>, the sum over \<open>h\<close>
  of \<open>|W2[h, c]|\<close>, plus \<open>|b2[c]|\<close>, plus the logarithm of the number of classes, is
  at most 700), every row of the predictions returned by \<open>forward_pass\<close> is a
  probability distribution: all entries are finite and non-negative, and each row sums
  to 1, up to the rounding of the doubles, which is not modelled.
\<close>

theorem forward_pass_probabilities:
  assumes dims: "shape0 W1 = shape1 X" "shape0 b1 = 1" "shape1 b1 = shape1 W1"
      "shape0 W2 = shape1 W1" "shape0 b2 = 1" "shape1 b2 = shape1 W2"
    and classes: "0 < shape1 W2"
    and finite: "all_cells isfinite X" "all_cells isfinite W1" "all_cells isfinite b1"
      "all_cells isfinite W2" "all_cells isfinite b2"
    and bounds: "first_layer_bounded X W1 b1" "logits_bounded W2 b2"
  shows "\<exists>P H. forward_pass X W1 b1 W2 b2 = Inr (P, H)
           \<and> shape0 P = shape0 X \<and> shape1 P = shape1 W2
           \<and> (\<forall>n < shape0 X.
                 (\<forall>c < shape1 W2. \<exists>p. item P n c = Fin p \<and> 0 \<le> p)
                 \<and> sum_upto (shape1 W2) (item P n) = Fin 1)"
proof -
  let ?H = "spec_hidden X W1 b1"
  let ?Z = "spec_affine ?H W2 b2"
  have "(\<forall>c < shape1 ?Z. \<exists>p. item (spec_softmax ?Z) n c = Fin p \<and> 0 \<le> p)
        \<and> sum_upto (shape1 ?Z) (item (spec_softmax ?Z) n) = Fin 1" if n: "n < shape0 X" for n
  proof (rule softmax_distribution)
    fix j
    assume "j < shape1 ?Z"
    then have "j < shape1 W2"
      by (simp add: spec_affine_def)
    with dims finite bounds(2) n
    show "\<exists>z. item ?Z n j = Fin z \<and> exp_underflow \<le> z \<and> z \<le> exp_overflow"
      by (rule logits_in_exp_range)
  qed (use n classes in \<open>simp_all add: spec_affine_def spec_hidden_def\<close>)
  then have "\<forall>n < shape0 X.
      (\<forall>c < shape1 W2. \<exists>p. item (spec_predictions X W1 b1 W2 b2) n c = Fin p \<and> 0 \<le> p)
      \<and> sum_upto (shape1 W2) (item (spec_predictions X W1 b1 W2 b2) n) = Fin 1"
    by (simp add: spec_predictions_def spec_affine_def)
  moreover have "forward_pass X W1 b1 W2 b2 = Inr (spec_predictions X W1 b1 W2 b2, ?H)"
    using dims by (rule forward_pass_eq_spec)
  moreover have "shape0 (spec_predictions X W1 b1 W2 b2) = shape0 X"
    "shape1 (spec_predictions X W1 b1 W2 b2) = shape1 W2"
    by (simp_all add: spec_predictions_def spec_affine_def spec_hidden_def)
  ultimately show ?thesis
    by blast
qed

theorem forward_pass_probabilities_witness:
  "shape0 (NDArray 1 1 [[Fin 0]]) = shape1 (NDArray 1 1 [[Fin 0]])
   \<and> shape0 (NDArray 1 2 [[Fin 1, Fin (- 2)]]) = shape1 (NDArray 1 1 [[Fin 0]])
   \<and> shape1 (NDArray 1 2 [[Fin 3, Fin 0]]) = shape1 (NDArray 1 2 [[Fin 1, Fin (- 2)]])
   \<and> (0::nat) < shape1 (NDArray 1 2 [[Fin 1, Fin (- 2)]])
   \<and> all_cells isfinite (NDArray 1 1 [[Fin 0]])
   \<and> all_cells isfinite (NDArray 1 2 [[Fin 1, Fin (- 2)]])
   \<and> all_cells isfinite (NDArray 1 2 [[Fin 3, Fin 0]])
   \<and> first_layer_bounded (NDArray 1 1 [[Fin 0]]) (NDArray 1 1 [[Fin 0]]) (NDArray 1 1 [[Fin 0]])
   \<and> logits_bounded (NDArray 1 2 [[Fin 1, Fin (- 2)]]) (NDArray 1 2 [[Fin 3, Fin 0]])
   \<and> (\<exists>P H. forward_pass (NDArray 1 1 [[Fin 0]]) (NDArray 1 1 [[Fin 0]])
                (NDArray 1 1 [[Fin 0]]) (NDArray 1 2 [[Fin 1, Fin (- 2)]])
                (NDArray 1 2 [[Fin 3, Fin 0]]) = Inr (P, H)
            \<and> shape0 P = 1 \<and> shape1 P = 2
            \<and> (\<exists>p. item P 0 0 = Fin p \<and> 0 \<le> p)
            \<and> (\<exists>p. item P 0 1 = Fin p \<and> 0 \<le> p)
            \<and> sum_upto 2 (item P 0) = Fin 1)"
proof -
  have small: "all_cells isfinite (NDArray 1 1 [[Fin 0]])"
    by (simp add: all_cells_def item_def)
  have weights: "all_cells isfinite (NDArray 1 2 [[Fin 1, Fin (- 2)]])"
    by (auto simp: all_cells_def item_def less_Suc_eq numeral_2_eq_2)
  have bias: "all_cells isfinite (NDArray 1 2 [[Fin 3, Fin 0]])"
    by (auto simp: all_cells_def item_def less_Suc_eq numeral_2_eq_2)
  have first: "first_layer_bounded (NDArray 1 1 [[Fin 0]]) (NDArray 1 1 [[Fin 0]])
      (NDArray 1 1 [[Fin 0]])"
    by (simp add: first_layer_bounded_def item_def)
  have "ln (2::real) \<le> 2 - 1"
    by (rule ln_le_minus_one) simp
  then have second: "logits_bounded (NDArray 1 2 [[Fin 1, Fin (- 2)]])
      (NDArray 1 2 [[Fin 3, Fin 0]])"
    by (auto simp: logits_bounded_def item_def less_Suc_eq numeral_2_eq_2)
  show ?thesis
    using small weights bias first second
      forward_pass_probabilities [of "NDArray 1 1 [[Fin 0]]" "NDArray 1 1 [[Fin 0]]"
        "NDArray 1 1 [[Fin 0]]" "NDArray 1 2 [[Fin 1, Fin (- 2)]]"
        "NDArray 1 2 [[Fin 3, Fin 0]]"]
    by (simp add: less_Suc_eq numeral_2_eq_2) blast
qed


end
